theory Spec2Isabelle
  imports Main
begin

section \<open>JavaScript strings\<close>

text \<open>
  A JavaScript string is modelled as a \<^typ>\<open>string\<close>, one \<^typ>\<open>char\<close> per code unit.
  White space and case folding are modelled on the ASCII range: the white space of
  \<^verbatim>\<open>String.prototype.trim\<close>, of \<^verbatim>\<open>parseInt\<close> and of the regular expression class
  \<^verbatim>\<open>\s\<close> is tab, line feed, vertical tab, form feed, carriage return and space; the line
  terminators that the regular expression \<^verbatim>\<open>.\<close> refuses are line feed and carriage return.
  The values \<^verbatim>\<open>null\<close> and \<^verbatim>\<open>undefined\<close> of an optional string are \<^term>\<open>None\<close>.
\<close>

definition isWhiteSpace :: "char \<Rightarrow> bool" where
  "isWhiteSpace c =
     (c = CHR 0x09 \<or> c = CHR 0x0A \<or> c = CHR 0x0B \<or> c = CHR 0x0C \<or> c = CHR 0x0D \<or> c = CHR '' '')"

definition isLineTerminator :: "char \<Rightarrow> bool" where
  "isLineTerminator c = (c = CHR 0x0A \<or> c = CHR 0x0D)"

definition trimStart :: "string \<Rightarrow> string" where
  "trimStart s = dropWhile isWhiteSpace s"

definition trimEnd :: "string \<Rightarrow> string" where
  "trimEnd s = rev (dropWhile isWhiteSpace (rev s))"

definition trim :: "string \<Rightarrow> string" where
  "trim s = trimEnd (trimStart s)"

definition lowerChar :: "char \<Rightarrow> char" where
  "lowerChar c =
     (let n = (of_char c :: nat) in if 65 \<le> n \<and> n \<le> 90 then char_of (n + 32) else c)"

definition upperChar :: "char \<Rightarrow> char" where
  "upperChar c =
     (let n = (of_char c :: nat) in if 97 \<le> n \<and> n \<le> 122 then char_of (n - 32) else c)"

definition toLowerCase :: "string \<Rightarrow> string" where
  "toLowerCase s = map lowerChar s"

definition toUpperCase :: "string \<Rightarrow> string" where
  "toUpperCase s = map upperChar s"

text \<open>\<^verbatim>\<open>s.replace(/^v/i, "")\<close>: one leading v or V is removed.\<close>

fun stripLeadingV :: "string \<Rightarrow> string" where
  "stripLeadingV [] = []"
| "stripLeadingV (c # cs) = (if c = CHR ''v'' \<or> c = CHR ''V'' then cs else c # cs)"

text \<open>\<^verbatim>\<open>s.split(d)\<close> for a one-character separator: the result is never empty.\<close>

fun split_on :: "char \<Rightarrow> string \<Rightarrow> string list" where
  "split_on d [] = [] # []"
| "split_on d (c # cs) =
     (if c = d then [] # split_on d cs
      else (case split_on d cs of [] \<Rightarrow> [c] # [] | p # ps \<Rightarrow> (c # p) # ps))"

text \<open>\<^verbatim>\<open>s.split(d)[0]\<close>, which is \<^verbatim>\<open>undefined\<close> only for an empty array.\<close>

definition first_part :: "string list \<Rightarrow> string" where
  "first_part ps = (case ps of [] \<Rightarrow> [] | p # _ \<Rightarrow> p)"

definition isDigit :: "char \<Rightarrow> bool" where
  "isDigit c = (let n = (of_char c :: nat) in 48 \<le> n \<and> n \<le> 57)"

definition digitValue :: "char \<Rightarrow> int" where
  "digitValue c = int (of_char c) - 48"

definition digitsValue :: "string \<Rightarrow> int" where
  "digitsValue ds = foldl (\<lambda>acc c. 10 * acc + digitValue c) 0 ds"

text \<open>
  \<^verbatim>\<open>Number.parseInt(s, 10)\<close>: leading white space is skipped, one sign is read, then the
  longest run of decimal digits; what follows the digits is ignored. With no digit the
  result is \<^verbatim>\<open>NaN\<close>, here \<^term>\<open>None\<close>. The value is the mathematical integer, which is
  the JavaScript number as long as it is below \<open>2 ^ 53\<close>.
\<close>

definition parseInt10 :: "string \<Rightarrow> int option" where
  "parseInt10 s =
     (let t = trimStart s;
          neg = (case t of [] \<Rightarrow> False | c # _ \<Rightarrow> c = CHR ''-'');
          u = (case t of [] \<Rightarrow> [] | c # cs \<Rightarrow> if c = CHR ''-'' \<or> c = CHR ''+'' then cs else c # cs);
          ds = takeWhile isDigit u
      in if ds = [] then None
         else Some (if neg then - digitsValue ds else digitsValue ds))"

section \<open>Version Matcher (lib/version.mjs)\<close>

definition cleaned_version :: "string \<Rightarrow> string" where
  "cleaned_version version = first_part (split_on CHR ''-'' (stripLeadingV (trim version)))"

definition semver_components :: "string \<Rightarrow> int option list" where
  "semver_components version =
     (let parts = split_on CHR ''.'' (cleaned_version version);
          normalized = map parseInt10 (take 3 parts)
      in normalized @ replicate (3 - length normalized) (Some 0))"

definition parseSemver :: "string \<Rightarrow> (int \<times> int \<times> int) option" where
  "parseSemver version =
     (let parts = split_on CHR ''.'' (cleaned_version version) in
      if length parts = 0 then None
      else (case semver_components version of
              [Some a, Some b, Some c] \<Rightarrow> Some (a, b, c)
            | _ \<Rightarrow> None))"

definition compareSemver :: "string \<Rightarrow> string \<Rightarrow> int option" where
  "compareSemver left right =
     (case (parseSemver left, parseSemver right) of
        (Some (a0, a1, a2), Some (b0, b1, b2)) \<Rightarrow>
          Some (if a0 > b0 then 1 else if a0 < b0 then - 1
                else if a1 > b1 then 1 else if a1 < b1 then - 1
                else if a2 > b2 then 1 else if a2 < b2 then - 1
                else 0)
      | _ \<Rightarrow> None)"

text \<open>
  The regular expression built for a spec with a star,
  \<^verbatim>\<open>new RegExp(`^${escapeRegex(spec).replace(/\\\*/g, ".*")}$`)\<close>: every character of the
  spec is escaped and so matches itself, and every star becomes \<^verbatim>\<open>.*\<close>, any run of
  characters that are not line terminators.
\<close>

fun glob_test :: "string \<Rightarrow> string \<Rightarrow> bool" where
  "glob_test [] s = (s = [])"
| "glob_test (p # ps) s =
     (if p = CHR ''*''
      then (glob_test ps s \<or>
            (case s of [] \<Rightarrow> False | c # cs \<Rightarrow> \<not> isLineTerminator c \<and> glob_test (p # ps) cs))
      else (case s of [] \<Rightarrow> False | c # cs \<Rightarrow> c = p \<and> glob_test ps cs))"

text \<open>
  \<^verbatim>\<open>spec.match(/^(>=|<=|>|<|=)\s*(.+)$/)\<close>. The operators are tried in the order of the
  alternation; after an operator the white space is taken greedily and given back one
  character at a time until the rest is not empty and holds no line terminator.
\<close>

fun comparator_rest :: "nat \<Rightarrow> string \<Rightarrow> string option" where
  "comparator_rest k rest =
     (let r = drop k rest in
      if r \<noteq> [] \<and> \<not> (\<exists>c \<in> set r. isLineTerminator c) then Some r
      else (case k of 0 \<Rightarrow> None | Suc j \<Rightarrow> comparator_rest j rest))"

fun comparator_try :: "string list \<Rightarrow> string \<Rightarrow> (string \<times> string) option" where
  "comparator_try [] spec = None"
| "comparator_try (operator # more) spec =
     (if take (length operator) spec = operator
      then (let rest = drop (length operator) spec in
            case comparator_rest (length (takeWhile isWhiteSpace rest)) rest of
              Some r \<Rightarrow> Some (operator, r)
            | None \<Rightarrow> comparator_try more spec)
      else comparator_try more spec)"

definition comparatorMatch :: "string \<Rightarrow> (string \<times> string) option" where
  "comparatorMatch spec = comparator_try [''>='', ''<='', ''>'', ''<'', ''=''] spec"

definition normalizedVersion :: "string \<Rightarrow> string" where
  "normalizedVersion version = stripLeadingV (trim version)"

definition spec_is_any :: "string \<Rightarrow> bool" where
  "spec_is_any spec = (spec = [] \<or> spec = ''*'' \<or> toLowerCase spec = ''any'')"

definition version_unknown :: "string option \<Rightarrow> bool" where
  "version_unknown version =
     (case version of None \<Rightarrow> True
      | Some v \<Rightarrow> v = [] \<or> toLowerCase (trim v) = ''unknown'')"

definition caret_matches :: "string \<Rightarrow> string \<Rightarrow> bool" where
  "caret_matches nv spec =
     (case (parseSemver (tl spec), parseSemver nv) of
        (Some (t0, t1, t2), Some (c0, c1, c2)) \<Rightarrow>
          if c0 \<noteq> t0 then False
          else if t0 = 0 \<and> c1 \<noteq> t1 then False
          else compareSemver nv (tl spec) \<noteq> Some (- 1)
      | _ \<Rightarrow> False)"

definition tilde_matches :: "string \<Rightarrow> string \<Rightarrow> bool" where
  "tilde_matches nv spec =
     (case (parseSemver (tl spec), parseSemver nv) of
        (Some (t0, t1, t2), Some (c0, c1, c2)) \<Rightarrow>
          c0 = t0 \<and> c1 = t1 \<and> compareSemver nv (tl spec) \<noteq> Some (- 1)
      | _ \<Rightarrow> False)"

definition comparator_holds :: "string \<Rightarrow> int \<Rightarrow> bool" where
  "comparator_holds operator compared =
     (if operator = ''>='' then compared \<ge> 0
      else if operator = ''<='' then compared \<le> 0
      else if operator = ''>'' then compared > 0
      else if operator = ''<'' then compared < 0
      else compared = 0)"

definition versionMatches :: "string option \<Rightarrow> string \<Rightarrow> bool" where
  "versionMatches version rawSpec =
     (let spec = trim rawSpec in
      if spec_is_any spec then True
      else if version_unknown version then False
      else
        (let nv = normalizedVersion (the version) in
         if CHR ''*'' \<in> set spec then glob_test spec nv
         else (case comparatorMatch spec of
                 Some (operator, target) \<Rightarrow>
                   (case compareSemver nv (trim target) of
                      None \<Rightarrow> False
                    | Some compared \<Rightarrow> comparator_holds operator compared)
               | None \<Rightarrow>
                   if take 1 spec = ''^'' then caret_matches nv spec
                   else if take 1 spec = ''~'' then tilde_matches nv spec
                   else nv = spec \<or> nv = stripLeadingV spec)))"

section \<open>Affected specifiers and installed skills (lib/utils.mjs, lib/feed.mjs, lib/matching.ts)\<close>

definition normalizeSkillName :: "string \<Rightarrow> string" where
  "normalizeSkillName v = toLowerCase (trim v)"

text \<open>\<^verbatim>\<open>Array.from(new Set(values))\<close>: the first occurrence of every value, in order.\<close>

definition uniqueStrings :: "string list \<Rightarrow> string list" where
  "uniqueStrings values = rev (remdups (rev values))"

text \<open>
  \<^verbatim>\<open>s.lastIndexOf(c)\<close>, \<open>- 1\<close> when the character does not occur. The scan runs forward
  and remembers the last position seen.
\<close>

fun last_index_from :: "char \<Rightarrow> string \<Rightarrow> int \<Rightarrow> int \<Rightarrow> int" where
  "last_index_from c [] i found = found"
| "last_index_from c (x # xs) i found = last_index_from c xs (i + 1) (if x = c then i else found)"

definition lastIndexOf :: "char \<Rightarrow> string \<Rightarrow> int" where
  "lastIndexOf c s = last_index_from c s 0 (- 1)"

text \<open>The result \<^verbatim>\<open>{ name, versionSpec }\<close> is the pair \<open>(name, versionSpec)\<close>.\<close>

definition parseAffectedSpecifier :: "string \<Rightarrow> (string \<times> string) option" where
  "parseAffectedSpecifier rawSpecifier =
     (let specifier = trim rawSpecifier in
      if specifier = [] then None
      else (let atIndex = lastIndexOf CHR ''@'' specifier in
            if atIndex \<le> 0 then Some (specifier, ''*'')
            else Some (take (nat atIndex) specifier, drop (nat (atIndex + 1)) specifier)))"

record InstalledSkill =
  skill_name :: string
  skill_dirName :: string
  skill_version :: "string option"

definition affectedSpecifierMatchesSkill :: "string \<Rightarrow> InstalledSkill \<Rightarrow> bool" where
  "affectedSpecifierMatchesSkill rawSpecifier skill =
     (case parseAffectedSpecifier rawSpecifier of
        None \<Rightarrow> False
      | Some (name, versionSpec) \<Rightarrow>
          if normalizeSkillName name \<noteq> normalizeSkillName (skill_name skill) then False
          else versionMatches (skill_version skill) versionSpec)"

section \<open>JSON values\<close>

text \<open>
  What \<^verbatim>\<open>JSON.parse\<close> returns. An object is the list of its entries in the order of
  \<^verbatim>\<open>Object.entries\<close>; a property is read from the first entry of that name. A number is
  held as the text that \<^verbatim>\<open>String\<close> gives for it, which is all the code modelled here
  does with a number. Property names inherited from \<^verbatim>\<open>Object.prototype\<close> are outside the
  model.
\<close>

datatype json =
    JNull
  | JBool bool
  | JNumber string
  | JString string
  | JArray "json list"
  | JObject "(string \<times> json) list"

text \<open>
  \<^verbatim>\<open>String(v)\<close>, which is also what a template literal puts in for \<^verbatim>\<open>v\<close>: an array is
  its elements joined by commas, null among them as the empty text, and an object is the
  text \<^verbatim>\<open>[object Object]\<close>.
\<close>

fun js_string :: "json \<Rightarrow> string" where
  "js_string JNull = ''null''"
| "js_string (JBool b) = (if b then ''true'' else ''false'')"
| "js_string (JNumber t) = t"
| "js_string (JString s) = s"
| "js_string (JArray xs) =
     (case map (\<lambda>x. if x = JNull then [] else js_string x) xs of
        [] \<Rightarrow> []
      | p # ps \<Rightarrow> p @ concat (map (\<lambda>q. '','' @ q) ps))"
| "js_string (JObject entries) = ''[object Object]''"

text \<open>
  \<^verbatim>\<open>if (v)\<close> for a value that is there: false, zero and the empty string are falsy. (Null
  is falsy as well; where the code reads an optional field, null is taken with
  \<^verbatim>\<open>undefined\<close> before this is asked.)
\<close>

definition js_truthy :: "json \<Rightarrow> bool" where
  "js_truthy v =
     (case v of
        JNull \<Rightarrow> False
      | JBool b \<Rightarrow> b
      | JNumber t \<Rightarrow> t \<noteq> ''0''
      | JString s \<Rightarrow> s \<noteq> []
      | _ \<Rightarrow> True)"

definition isObject :: "json \<Rightarrow> bool" where
  "isObject v = (case v of JObject _ \<Rightarrow> True | JArray _ \<Rightarrow> True | _ \<Rightarrow> False)"

text \<open>
  \<^verbatim>\<open>value.key\<close> for one of the property names the code reads (none of them an array
  index or \<^verbatim>\<open>length\<close>); \<^term>\<open>None\<close> is \<^verbatim>\<open>undefined\<close>.
\<close>

definition get_prop :: "json \<Rightarrow> string \<Rightarrow> json option" where
  "get_prop v key = (case v of JObject entries \<Rightarrow> map_of entries key | _ \<Rightarrow> None)"

function decimal :: "nat \<Rightarrow> string" where
  "decimal n = (if n < 10 then [char_of (48 + n)] else decimal (n div 10) @ [char_of (48 + n mod 10)])"
  by pat_completeness auto
termination
  by (relation "measure id") auto

definition object_entries :: "json \<Rightarrow> (string \<times> json) list" where
  "object_entries v =
     (case v of
        JObject entries \<Rightarrow> entries
      | JArray xs \<Rightarrow> zip (map decimal [0 ..< length xs]) xs
      | _ \<Rightarrow> [])"

text \<open>\<^verbatim>\<open>obj[key] = value\<close> on a plain object: an existing entry keeps its place.\<close>

fun obj_set :: "(string \<times> 'a) list \<Rightarrow> string \<Rightarrow> 'a \<Rightarrow> (string \<times> 'a) list" where
  "obj_set [] key v = [(key, v)]"
| "obj_set ((k, x) # rest) key v = (if k = key then (k, v) # rest else (k, x) # obj_set rest key v)"

text \<open>\<^verbatim>\<open>typeof v === "string" && v.trim()\<close>\<close>

definition nonblank_string :: "json option \<Rightarrow> bool" where
  "nonblank_string v = (case v of Some (JString s) \<Rightarrow> trim s \<noteq> [] | _ \<Rightarrow> False)"

section \<open>Feed payload validation (lib/feed.mjs)\<close>

definition valid_advisory :: "json \<Rightarrow> bool" where
  "valid_advisory advisory =
     (if \<not> isObject advisory then False
      else if \<not> nonblank_string (get_prop advisory ''id'') then False
      else if \<not> nonblank_string (get_prop advisory ''severity'') then False
      else (case get_prop advisory ''affected'' of
              Some (JArray affected) \<Rightarrow> list_all (\<lambda>entry. nonblank_string (Some entry)) affected
            | _ \<Rightarrow> False))"

definition isValidFeedPayload :: "json \<Rightarrow> bool" where
  "isValidFeedPayload raw =
     (if \<not> isObject raw then False
      else if \<not> nonblank_string (get_prop raw ''version'') then False
      else (case get_prop raw ''advisories'' of
              Some (JArray advisories) \<Rightarrow> list_all valid_advisory advisories
            | _ \<Rightarrow> False))"

section \<open>The environment of a load\<close>

datatype error =
    SecurityPolicyError string
  | FetchError
  | FileError string
  | SyntaxError
  | Error string

text \<open>
  The outcome of \<^verbatim>\<open>globalThis.fetch\<close>: the promise rejects (network failure, abort after
  the ten-second timeout), or a response arrives with its \<^verbatim>\<open>ok\<close> flag and the outcome of
  \<^verbatim>\<open>response.text()\<close>, \<^term>\<open>None\<close> when that rejects.
\<close>

datatype http_result = Rejected | Response bool "string option"

record parsed_url =
  protocol :: string
  hostname :: string
  pathname :: string

text \<open>
  The platform a load runs on. \<^verbatim>\<open>new URL(u)\<close> is \<open>parseURL\<close> (\<^term>\<open>None\<close> when it throws),
  \<^verbatim>\<open>new URL(rel, base).toString()\<close> is \<open>resolveURL\<close>; \<open>http\<close> is the network and \<open>readFile\<close>
  the file system (\<^term>\<open>None\<close> when \<^verbatim>\<open>fs.readFile\<close> rejects); \<open>JSON_parse\<close> is
  \<^verbatim>\<open>JSON.parse\<close> (\<^term>\<open>None\<close> when it throws); \<open>signature_valid payload signature key\<close> is the
  result of \<^verbatim>\<open>verifySignedPayload\<close>, which catches every error of the cryptographic
  library and so always returns a boolean; \<open>sha256Hex\<close> is the hex digest; the three
  \<open>path_\<close> fields are \<^verbatim>\<open>path.dirname\<close>, \<^verbatim>\<open>path.basename\<close> and \<^verbatim>\<open>path.join\<close> of two parts.
  Within one load a URL or a file read twice gives the same content.
\<close>

record world =
  parseURL :: "string \<Rightarrow> parsed_url option"
  resolveURL :: "string \<Rightarrow> string \<Rightarrow> string option"
  http :: "string \<Rightarrow> http_result"
  readFile :: "string \<Rightarrow> string option"
  JSON_parse :: "string \<Rightarrow> json option"
  signature_valid :: "string \<Rightarrow> string \<Rightarrow> string \<Rightarrow> bool"
  sha256Hex :: "string \<Rightarrow> string"
  path_dirname :: "string \<Rightarrow> string"
  path_basename :: "string \<Rightarrow> string"
  path_join :: "string \<Rightarrow> string \<Rightarrow> string"

section \<open>Secure fetch (lib/feed.mjs)\<close>

definition ALLOWED_DOMAINS :: "string list" where
  "ALLOWED_DOMAINS =
     [''clawsec.prompt.security'', ''prompt.security'', ''raw.githubusercontent.com'', ''github.com'']"

definition endsWith :: "string \<Rightarrow> string \<Rightarrow> bool" where
  "endsWith s suffix = (length suffix \<le> length s \<and> drop (length s - length suffix) s = suffix)"

definition isAllowedDomain :: "world \<Rightarrow> string \<Rightarrow> bool" where
  "isAllowedDomain w url =
     (case parseURL w url of
        None \<Rightarrow> False
      | Some parsed \<Rightarrow>
          if protocol parsed \<noteq> ''https:'' then False
          else (let h = toLowerCase (hostname parsed) in
                list_ex (\<lambda>allowed. h = allowed \<or> endsWith h (''.'' @ allowed)) ALLOWED_DOMAINS))"

definition join_with :: "string \<Rightarrow> string list \<Rightarrow> string" where
  "join_with sep parts = (case parts of [] \<Rightarrow> [] | p # ps \<Rightarrow> p @ concat (map (\<lambda>q. sep @ q) ps))"

definition secureFetch :: "world \<Rightarrow> string \<Rightarrow> error + (bool \<times> string option)" where
  "secureFetch w url =
     (if \<not> isAllowedDomain w url
      then Inl (SecurityPolicyError
                 (''Security policy violation: URL domain not allowed. '' @
                  ''Only connections to '' @ join_with '', '' ALLOWED_DOMAINS @ '' are permitted. '' @
                  ''Blocked: '' @ url))
      else (case http w url of
              Rejected \<Rightarrow> Inl FetchError
            | Response ok body \<Rightarrow> Inr (ok, body)))"

definition is_policy_error :: "error \<Rightarrow> bool" where
  "is_policy_error e = (case e of SecurityPolicyError _ \<Rightarrow> True | _ \<Rightarrow> False)"

text \<open>
  \<^verbatim>\<open>fetchText(fetchFn, targetUrl)\<close>: a policy violation is thrown again, every other
  rejection and a response that is not \<^verbatim>\<open>ok\<close> give null.
\<close>

definition fetchText :: "(string \<Rightarrow> error + (bool \<times> string option)) \<Rightarrow> string \<Rightarrow> error + string option" where
  "fetchText fetchFn targetUrl =
     (case fetchFn targetUrl of
        Inr (ok, body) \<Rightarrow> if \<not> ok then Inr None else (case body of Some t \<Rightarrow> Inr (Some t) | None \<Rightarrow> Inr None)
      | Inl e \<Rightarrow> if is_policy_error e then Inl e else Inr None)"

section \<open>Checksum manifests (lib/feed.mjs)\<close>

definition isHexChar :: "char \<Rightarrow> bool" where
  "isHexChar c = (let n = (of_char c :: nat) in (97 \<le> n \<and> n \<le> 102) \<or> (48 \<le> n \<and> n \<le> 57))"

text \<open>\<^verbatim>\<open>/^[a-f0-9]{64}$/.test(s)\<close>\<close>

definition isSha256Hex :: "string \<Rightarrow> bool" where
  "isSha256Hex s = (length s = 64 \<and> list_all isHexChar s)"

definition extractSha256Value :: "json \<Rightarrow> string option" where
  "extractSha256Value v =
     (case v of
        JString s \<Rightarrow>
          (let normalized = toLowerCase (trim s) in
           if isSha256Hex normalized then Some normalized else None)
      | _ \<Rightarrow>
          (if isObject v then
             (case get_prop v ''sha256'' of
                Some (JString s) \<Rightarrow>
                  (let normalized = toLowerCase (trim s) in
                   if isSha256Hex normalized then Some normalized else None)
              | _ \<Rightarrow> None)
           else None))"

record manifest =
  schemaVersion :: string
  algorithm :: string
  files :: "(string \<times> string) list"

fun manifest_files :: "(string \<times> json) list \<Rightarrow> (string \<times> string) list \<Rightarrow> error + (string \<times> string) list" where
  "manifest_files [] acc = Inr acc"
| "manifest_files ((key, v) # rest) acc =
     (if trim key = [] then manifest_files rest acc
      else (case extractSha256Value v of
              None \<Rightarrow> Inl (Error (''Invalid checksum digest entry for '' @ key))
            | Some digest \<Rightarrow> manifest_files rest (obj_set acc key digest)))"

definition manifest_schema_version :: "json \<Rightarrow> string" where
  "manifest_schema_version parsed =
     (case get_prop parsed ''schema_version'' of
        Some (JString s) \<Rightarrow> trim s
      | _ \<Rightarrow>
        (case get_prop parsed ''version'' of
           Some (JString s) \<Rightarrow> trim s
         | _ \<Rightarrow>
           (case get_prop parsed ''generated_at'' of
              Some (JString s) \<Rightarrow> trim s
            | _ \<Rightarrow> ''1'')))"

definition parseChecksumsManifest :: "world \<Rightarrow> string \<Rightarrow> error + manifest" where
  "parseChecksumsManifest w manifestRaw =
     (case JSON_parse w manifestRaw of
        None \<Rightarrow> Inl (Error ''Checksum manifest is not valid JSON'')
      | Some parsed \<Rightarrow>
          if \<not> isObject parsed then Inl (Error ''Checksum manifest must be an object'')
          else
            (let algorithmRaw =
                   (case get_prop parsed ''algorithm'' of
                      Some (JString a) \<Rightarrow> toLowerCase (trim a)
                    | _ \<Rightarrow> ''sha256'')
             in
             if algorithmRaw \<noteq> ''sha256''
             then Inl (Error (''Unsupported checksum manifest algorithm: '' @
                              (if algorithmRaw = [] then ''(empty)'' else algorithmRaw)))
             else
               (let schemaVersion = manifest_schema_version parsed in
                if schemaVersion = [] then Inl (Error ''Checksum manifest missing schema_version'')
                else
                  (case get_prop parsed ''files'' of
                     None \<Rightarrow> Inl (Error ''Checksum manifest missing files object'')
                   | Some filesRaw \<Rightarrow>
                       if \<not> isObject filesRaw then Inl (Error ''Checksum manifest missing files object'')
                       else
                         (case manifest_files (object_entries filesRaw) [] of
                            Inl e \<Rightarrow> Inl e
                          | Inr fs \<Rightarrow>
                              if length fs = 0
                              then Inl (Error ''Checksum manifest has no usable file digests'')
                              else Inr \<lparr>schemaVersion = schemaVersion, algorithm = algorithmRaw,
                                        files = fs\<rparr>)))))"

fun verifyChecksums :: "world \<Rightarrow> manifest \<Rightarrow> (string \<times> string) list \<Rightarrow> error + unit" where
  "verifyChecksums w m [] = Inr ()"
| "verifyChecksums w m ((entryName, entryContent) # rest) =
     (if entryName = [] then verifyChecksums w m rest
      else (case map_of (files m) entryName of
              None \<Rightarrow> Inl (Error (''Checksum manifest missing required entry: '' @ entryName))
            | Some expectedDigest \<Rightarrow>
                if expectedDigest = []
                then Inl (Error (''Checksum manifest missing required entry: '' @ entryName))
                else if sha256Hex w entryContent \<noteq> expectedDigest
                then Inl (Error (''Checksum mismatch for '' @ entryName))
                else verifyChecksums w m rest))"

text \<open>\<^verbatim>\<open>String(feedUrl).replace(/\/?[^/]*$/, "")\<close>: what follows the last slash goes, with it.\<close>

definition strip_last_segment :: "string \<Rightarrow> string" where
  "strip_last_segment s =
     (let i = lastIndexOf CHR ''/'' s in if i < 0 then [] else take (nat i) s)"

definition defaultChecksumsUrl :: "world \<Rightarrow> string \<Rightarrow> string" where
  "defaultChecksumsUrl w feedUrl =
     (case resolveURL w ''checksums.json'' feedUrl of
        Some u \<Rightarrow> u
      | None \<Rightarrow> strip_last_segment feedUrl @ ''/checksums.json'')"

definition after_last_slash :: "string \<Rightarrow> string option" where
  "after_last_slash s =
     (let lastSlash = lastIndexOf CHR ''/'' s in
      if lastSlash \<ge> 0 \<and> lastSlash < int (length s) - 1
      then Some (drop (nat (lastSlash + 1)) s) else None)"

definition safeBasename :: "world \<Rightarrow> string \<Rightarrow> string \<Rightarrow> string" where
  "safeBasename w urlOrPath fallback =
     (case parseURL w urlOrPath of
        Some parsed \<Rightarrow>
          (case after_last_slash (pathname parsed) of Some b \<Rightarrow> b | None \<Rightarrow> fallback)
      | None \<Rightarrow>
          (case after_last_slash (trim urlOrPath) of Some b \<Rightarrow> b | None \<Rightarrow> fallback))"

section \<open>Feed Loader (lib/feed.mjs)\<close>

text \<open>The options that both loaders take; an absent option is \<^term>\<open>None\<close>.\<close>

record feed_options =
  publicKeyPem :: "string option"
  checksumsPublicKeyPem :: "string option"
  allowUnsigned :: "bool option"
  verifyChecksumManifest :: "bool option"
  checksumFeedEntry :: "string option"
  checksumSignatureEntry :: "string option"

record local_options = feed_options +
  signaturePath :: "string option"
  checksumsPath :: "string option"
  checksumsSignaturePath :: "string option"
  checksumPublicKeyEntry :: "string option"

record remote_options = feed_options +
  signatureUrl :: "string option"
  checksumsUrl :: "string option"
  checksumsSignatureUrl :: "string option"

text \<open>\<^verbatim>\<open>a ?? b\<close>\<close>

definition nullish_or :: "'a option \<Rightarrow> 'a \<Rightarrow> 'a" where
  "nullish_or a b = (case a of Some x \<Rightarrow> x | None \<Rightarrow> b)"

definition opt_publicKeyPem :: "'a feed_options_scheme \<Rightarrow> string" where
  "opt_publicKeyPem options = nullish_or (publicKeyPem options) []"

definition opt_checksumsPublicKeyPem :: "'a feed_options_scheme \<Rightarrow> string" where
  "opt_checksumsPublicKeyPem options =
     nullish_or (checksumsPublicKeyPem options) (opt_publicKeyPem options)"

text \<open>\<^verbatim>\<open>options.allowUnsigned === true\<close> and \<^verbatim>\<open>options.verifyChecksumManifest !== false\<close>\<close>

definition opt_allowUnsigned :: "'a feed_options_scheme \<Rightarrow> bool" where
  "opt_allowUnsigned options = (allowUnsigned options = Some True)"

definition opt_verifyChecksumManifest :: "'a feed_options_scheme \<Rightarrow> bool" where
  "opt_verifyChecksumManifest options = (verifyChecksumManifest options \<noteq> Some False)"

subsection \<open>Local feed\<close>

definition local_signaturePath :: "string \<Rightarrow> local_options \<Rightarrow> string" where
  "local_signaturePath feedPath options = nullish_or (signaturePath options) (feedPath @ ''.sig'')"

definition local_checksumsPath :: "world \<Rightarrow> string \<Rightarrow> local_options \<Rightarrow> string" where
  "local_checksumsPath w feedPath options =
     nullish_or (checksumsPath options) (path_join w (path_dirname w feedPath) ''checksums.json'')"

definition local_checksumsSignaturePath :: "world \<Rightarrow> string \<Rightarrow> local_options \<Rightarrow> string" where
  "local_checksumsSignaturePath w feedPath options =
     nullish_or (checksumsSignaturePath options) (local_checksumsPath w feedPath options @ ''.sig'')"

definition local_expectedEntries ::
  "world \<Rightarrow> string \<Rightarrow> local_options \<Rightarrow> string \<Rightarrow> string \<Rightarrow> (string \<times> string) list" where
  "local_expectedEntries w feedPath options payloadRaw signatureRaw =
     (let feedEntry = nullish_or (checksumFeedEntry options) (path_basename w feedPath);
          signatureEntry = nullish_or (checksumSignatureEntry options)
                             (path_basename w (local_signaturePath feedPath options));
          expectedEntries = obj_set (obj_set [] feedEntry payloadRaw) signatureEntry signatureRaw
      in (case checksumPublicKeyEntry options of
            None \<Rightarrow> expectedEntries
          | Some keyEntry \<Rightarrow>
              if keyEntry = [] then expectedEntries
              else obj_set expectedEntries keyEntry (opt_publicKeyPem options)))"

text \<open>The checksum block of \<^verbatim>\<open>loadLocalFeed\<close>, entered when the manifest is to be verified.\<close>

definition local_checksums :: "world \<Rightarrow> string \<Rightarrow> local_options \<Rightarrow> string \<Rightarrow> string \<Rightarrow> error + unit" where
  "local_checksums w feedPath options payloadRaw signatureRaw =
     (let cPath = local_checksumsPath w feedPath options;
          cSigPath = local_checksumsSignaturePath w feedPath options in
      case readFile w cPath of
        None \<Rightarrow> Inl (FileError cPath)
      | Some checksumsRaw \<Rightarrow>
          (case readFile w cSigPath of
             None \<Rightarrow> Inl (FileError cSigPath)
           | Some checksumsSignatureRaw \<Rightarrow>
               if \<not> signature_valid w checksumsRaw checksumsSignatureRaw
                      (opt_checksumsPublicKeyPem options)
               then Inl (Error (''Checksum manifest signature verification failed: '' @ cPath))
               else (case parseChecksumsManifest w checksumsRaw of
                       Inl e \<Rightarrow> Inl e
                     | Inr checksumsManifest \<Rightarrow>
                         verifyChecksums w checksumsManifest
                           (local_expectedEntries w feedPath options payloadRaw signatureRaw))))"

text \<open>The block of \<^verbatim>\<open>loadLocalFeed\<close> under \<^verbatim>\<open>if (!allowUnsigned)\<close>.\<close>

definition local_verification :: "world \<Rightarrow> string \<Rightarrow> local_options \<Rightarrow> string \<Rightarrow> error + unit" where
  "local_verification w feedPath options payloadRaw =
     (let sPath = local_signaturePath feedPath options in
      case readFile w sPath of
        None \<Rightarrow> Inl (FileError sPath)
      | Some signatureRaw \<Rightarrow>
          if \<not> signature_valid w payloadRaw signatureRaw (opt_publicKeyPem options)
          then Inl (Error (''Feed signature verification failed for local feed: '' @ feedPath))
          else if opt_verifyChecksumManifest options
          then local_checksums w feedPath options payloadRaw signatureRaw
          else Inr ())"

definition loadLocalFeed :: "world \<Rightarrow> string \<Rightarrow> local_options \<Rightarrow> error + json" where
  "loadLocalFeed w feedPath options =
     (case readFile w feedPath of
        None \<Rightarrow> Inl (FileError feedPath)
      | Some payloadRaw \<Rightarrow>
          (case (if \<not> opt_allowUnsigned options
                 then local_verification w feedPath options payloadRaw else Inr ()) of
             Inl e \<Rightarrow> Inl e
           | Inr _ \<Rightarrow>
               (case JSON_parse w payloadRaw of
                  None \<Rightarrow> Inl SyntaxError
                | Some payload \<Rightarrow>
                    if \<not> isValidFeedPayload payload
                    then Inl (Error (''Invalid advisory feed format: '' @ feedPath))
                    else Inr payload)))"

subsection \<open>Remote feed\<close>

definition remote_signatureUrl :: "string \<Rightarrow> remote_options \<Rightarrow> string" where
  "remote_signatureUrl feedUrl options = nullish_or (signatureUrl options) (feedUrl @ ''.sig'')"

definition remote_checksumsUrl :: "world \<Rightarrow> string \<Rightarrow> remote_options \<Rightarrow> string" where
  "remote_checksumsUrl w feedUrl options =
     nullish_or (checksumsUrl options) (defaultChecksumsUrl w feedUrl)"

definition remote_checksumsSignatureUrl :: "world \<Rightarrow> string \<Rightarrow> remote_options \<Rightarrow> string" where
  "remote_checksumsSignatureUrl w feedUrl options =
     nullish_or (checksumsSignatureUrl options) (remote_checksumsUrl w feedUrl options @ ''.sig'')"

definition remote_expectedEntries ::
  "world \<Rightarrow> string \<Rightarrow> remote_options \<Rightarrow> string \<Rightarrow> string \<Rightarrow> (string \<times> string) list" where
  "remote_expectedEntries w feedUrl options payloadRaw signatureRaw =
     (let feedEntry = nullish_or (checksumFeedEntry options) (safeBasename w feedUrl ''feed.json'');
          signatureEntry = nullish_or (checksumSignatureEntry options)
                             (safeBasename w (remote_signatureUrl feedUrl options) ''feed.json.sig'')
      in obj_set (obj_set [] feedEntry payloadRaw) signatureEntry signatureRaw)"

text \<open>\<^verbatim>\<open>if (!text)\<close> for a fetched text: null and the empty string are falsy.\<close>

definition truthy_text :: "string option \<Rightarrow> bool" where
  "truthy_text t = (case t of None \<Rightarrow> False | Some s \<Rightarrow> s \<noteq> [])"

text \<open>
  The checksum block of \<^verbatim>\<open>loadRemoteFeed\<close>. The result \<^term>\<open>Inr False\<close> is its
  \<^verbatim>\<open>return null\<close>, \<^term>\<open>Inr True\<close> lets the load go on.
\<close>

definition remote_checksums :: "world \<Rightarrow> string \<Rightarrow> remote_options \<Rightarrow> string \<Rightarrow> string \<Rightarrow> error + bool" where
  "remote_checksums w feedUrl options payloadRaw signatureRaw =
     (case fetchText (secureFetch w) (remote_checksumsUrl w feedUrl options) of
        Inl e \<Rightarrow> Inl e
      | Inr checksumsRaw \<Rightarrow>
          (case fetchText (secureFetch w) (remote_checksumsSignatureUrl w feedUrl options) of
             Inl e \<Rightarrow> Inl e
           | Inr checksumsSignatureRaw \<Rightarrow>
               if truthy_text checksumsRaw \<and> truthy_text checksumsSignatureRaw
               then
                 (if \<not> signature_valid w (the checksumsRaw) (the checksumsSignatureRaw)
                         (opt_checksumsPublicKeyPem options)
                  then Inr False
                  else (case parseChecksumsManifest w (the checksumsRaw) of
                          Inl e \<Rightarrow> Inl e
                        | Inr checksumsManifest \<Rightarrow>
                            (case verifyChecksums w checksumsManifest
                                    (remote_expectedEntries w feedUrl options payloadRaw signatureRaw) of
                               Inl e \<Rightarrow> Inl e
                             | Inr _ \<Rightarrow> Inr True)))
               else Inr True))"

text \<open>The block of \<^verbatim>\<open>loadRemoteFeed\<close> under \<^verbatim>\<open>if (!allowUnsigned)\<close>.\<close>

definition remote_verification :: "world \<Rightarrow> string \<Rightarrow> remote_options \<Rightarrow> string \<Rightarrow> error + bool" where
  "remote_verification w feedUrl options payloadRaw =
     (case fetchText (secureFetch w) (remote_signatureUrl feedUrl options) of
        Inl e \<Rightarrow> Inl e
      | Inr signatureRaw \<Rightarrow>
          if \<not> truthy_text signatureRaw then Inr False
          else if \<not> signature_valid w payloadRaw (the signatureRaw) (opt_publicKeyPem options)
          then Inr False
          else if opt_verifyChecksumManifest options
          then remote_checksums w feedUrl options payloadRaw (the signatureRaw)
          else Inr True)"

text \<open>The body of the outer \<^verbatim>\<open>try\<close> of \<^verbatim>\<open>loadRemoteFeed\<close>.\<close>

definition loadRemoteFeed_try :: "world \<Rightarrow> string \<Rightarrow> remote_options \<Rightarrow> error + json option" where
  "loadRemoteFeed_try w feedUrl options =
     (case fetchText (secureFetch w) feedUrl of
        Inl e \<Rightarrow> Inl e
      | Inr payloadRaw \<Rightarrow>
          if \<not> truthy_text payloadRaw then Inr None
          else
            (case (if \<not> opt_allowUnsigned options
                   then remote_verification w feedUrl options (the payloadRaw) else Inr True) of
               Inl e \<Rightarrow> Inl e
             | Inr False \<Rightarrow> Inr None
             | Inr True \<Rightarrow>
                 (case JSON_parse w (the payloadRaw) of
                    None \<Rightarrow> Inr None
                  | Some payload \<Rightarrow>
                      if \<not> isValidFeedPayload payload then Inr None else Inr (Some payload))))"

text \<open>
  \<^verbatim>\<open>loadRemoteFeed\<close>: its \<^verbatim>\<open>catch\<close> returns null for a policy violation and throws every
  other error again.
\<close>

definition loadRemoteFeed :: "world \<Rightarrow> string \<Rightarrow> remote_options \<Rightarrow> error + json option" where
  "loadRemoteFeed w feedUrl options =
     (case loadRemoteFeed_try w feedUrl options of
        Inl e \<Rightarrow> if is_policy_error e then Inr None else Inl e
      | Inr r \<Rightarrow> Inr r)"

text \<open>The URLs a remote load is configured to fetch.\<close>

definition remote_urls :: "world \<Rightarrow> string \<Rightarrow> remote_options \<Rightarrow> string list" where
  "remote_urls w feedUrl options =
     feedUrl #
     (if opt_allowUnsigned options then []
      else remote_signatureUrl feedUrl options #
           (if opt_verifyChecksumManifest options
            then [remote_checksumsUrl w feedUrl options,
                  remote_checksumsSignatureUrl w feedUrl options]
            else []))"

subsection \<open>The payload shape in the words of the specification\<close>

text \<open>
  An object whose version is a non-empty string, whose advisories field is an array, and
  in which every advisory has a non-empty string id, a non-empty string severity and an
  array-typed affected field.
\<close>

definition nonempty_string :: "json option \<Rightarrow> bool" where
  "nonempty_string v = (case v of Some (JString s) \<Rightarrow> s \<noteq> [] | _ \<Rightarrow> False)"

definition is_array :: "json option \<Rightarrow> bool" where
  "is_array v = (case v of Some (JArray _) \<Rightarrow> True | _ \<Rightarrow> False)"

definition spec_advisory_shape :: "json \<Rightarrow> bool" where
  "spec_advisory_shape advisory =
     (nonempty_string (get_prop advisory ''id'')
      \<and> nonempty_string (get_prop advisory ''severity'')
      \<and> is_array (get_prop advisory ''affected''))"

definition spec_feed_shape :: "json \<Rightarrow> bool" where
  "spec_feed_shape raw =
     (case raw of
        JObject _ \<Rightarrow>
          nonempty_string (get_prop raw ''version'')
          \<and> (case get_prop raw ''advisories'' of
                Some (JArray advisories) \<Rightarrow> list_all spec_advisory_shape advisories
              | _ \<Rightarrow> False)
      | _ \<Rightarrow> False)"

subsection \<open>A concrete platform\<close>

text \<open>
  A small platform on which the loaders can be run: URLs of the two forms
  \<^verbatim>\<open>https://host/path\<close> and \<^verbatim>\<open>http://host/path\<close> parse, a signature is valid when it is the
  text \<^verbatim>\<open>signed:\<close> followed by the payload, and the network, the files, the JSON
  parser and the digests are given as tables.
\<close>

definition example_parseURL :: "string \<Rightarrow> parsed_url option" where
  "example_parseURL url =
     (if take 8 url = ''https://''
      then Some \<lparr>protocol = ''https:'', hostname = takeWhile (\<lambda>c. c \<noteq> CHR ''/'') (drop 8 url),
                 pathname = dropWhile (\<lambda>c. c \<noteq> CHR ''/'') (drop 8 url)\<rparr>
      else if take 7 url = ''http://''
      then Some \<lparr>protocol = ''http:'', hostname = takeWhile (\<lambda>c. c \<noteq> CHR ''/'') (drop 7 url),
                 pathname = dropWhile (\<lambda>c. c \<noteq> CHR ''/'') (drop 7 url)\<rparr>
      else None)"

definition example_payload :: json where
  "example_payload =
     JObject [(''version'', JString ''1.0.0''),
              (''advisories'',
               JArray [JObject [(''id'', JString ''TEST-001''), (''severity'', JString ''high''),
                                (''affected'', JArray [JString ''ext@1.0.0''])]])]"

definition example_bad_payload :: json where
  "example_bad_payload =
     JObject [(''version'', JString ''1.0.0''),
              (''advisories'',
               JArray [JObject [(''id'', JString ''TEST-001''),
                                (''affected'', JArray [JString ''ext@1.0.0''])]])]"

text \<open>An accepted payload whose advisory has a number for its title and a boolean for its action.\<close>

definition example_odd_payload :: json where
  "example_odd_payload =
     JObject [(''version'', JString ''1.0.0''),
              (''advisories'',
               JArray [JObject [(''id'', JString ''TEST-002''), (''severity'', JString ''high''),
                                (''title'', JNumber ''5''), (''action'', JBool True),
                                (''affected'', JArray [JString ''ext@1.0.0''])]])]"

definition example_manifest :: json where
  "example_manifest =
     JObject [(''schema_version'', JString ''1.0''), (''algorithm'', JString ''sha256''),
              (''files'',
               JObject [(''feed.json'', JString (replicate 64 CHR ''a'')),
                        (''feed.json.sig'', JString (replicate 64 CHR ''b''))])]"

definition example_JSON_parse :: "string \<Rightarrow> json option" where
  "example_JSON_parse t =
     (if t = ''feed-text'' then Some example_payload
      else if t = ''bad-feed-text'' then Some example_bad_payload
      else if t = ''odd-feed-text'' then Some example_odd_payload
      else if t = ''manifest-text'' then Some example_manifest
      else if t = ''ext-skill-json''
      then Some (JObject [(''name'', JString ''ext''), (''version'', JString ''1.0.0'')])
      else None)"

definition example_sha256Hex :: "string \<Rightarrow> string" where
  "example_sha256Hex t =
     (if t = ''feed-text'' then replicate 64 CHR ''a''
      else if t = ''signed:feed-text'' then replicate 64 CHR ''b''
      else replicate 64 CHR ''0'')"

definition example_world :: "(string \<Rightarrow> http_result) \<Rightarrow> (string \<Rightarrow> string option) \<Rightarrow> world" where
  "example_world net disk =
     \<lparr>parseURL = example_parseURL,
      resolveURL = (\<lambda>rel base. None),
      http = net,
      readFile = disk,
      JSON_parse = example_JSON_parse,
      signature_valid = (\<lambda>payload signature key. signature = ''signed:'' @ payload),
      sha256Hex = example_sha256Hex,
      path_dirname = strip_last_segment,
      path_basename = (\<lambda>p. case after_last_slash p of Some b \<Rightarrow> b | None \<Rightarrow> p),
      path_join = (\<lambda>a b. a @ ''/'' @ b)\<rparr>"

text \<open>A network that serves a feed text with its signature, and the manifest when asked to.\<close>

definition example_net :: "string \<Rightarrow> bool \<Rightarrow> string \<Rightarrow> http_result" where
  "example_net feedText withChecksums url =
     (if url = ''https://clawsec.prompt.security/advisories/feed.json''
      then Response True (Some feedText)
      else if url = ''https://clawsec.prompt.security/advisories/feed.json.sig''
      then Response True (Some (''signed:'' @ feedText))
      else if withChecksums \<and> url = ''https://clawsec.prompt.security/advisories/checksums.json''
      then Response True (Some ''manifest-text'')
      else if withChecksums \<and> url = ''https://clawsec.prompt.security/advisories/checksums.json.sig''
      then Response True (Some ''signed:manifest-text'')
      else Response False None)"

definition example_net_down :: "string \<Rightarrow> http_result" where
  "example_net_down url = Rejected"

text \<open>A disk that holds a feed text with its signature, the manifest and its signature.\<close>

definition example_disk :: "string \<Rightarrow> string \<Rightarrow> string option" where
  "example_disk feedText path =
     (if path = ''/suite/advisories/feed.json'' then Some feedText
      else if path = ''/suite/advisories/feed.json.sig'' then Some (''signed:'' @ feedText)
      else if path = ''/suite/advisories/checksums.json'' then Some ''manifest-text''
      else if path = ''/suite/advisories/checksums.json.sig'' then Some ''signed:manifest-text''
      else None)"

definition no_disk :: "string \<Rightarrow> string option" where
  "no_disk path = None"

definition default_remote_options :: remote_options where
  "default_remote_options =
     \<lparr>publicKeyPem = Some ''key'', checksumsPublicKeyPem = None, allowUnsigned = None,
      verifyChecksumManifest = None, checksumFeedEntry = None, checksumSignatureEntry = None,
      signatureUrl = None, checksumsUrl = None, checksumsSignatureUrl = None\<rparr>"

definition default_local_options :: local_options where
  "default_local_options =
     \<lparr>publicKeyPem = Some ''key'', checksumsPublicKeyPem = None, allowUnsigned = None,
      verifyChecksumManifest = None, checksumFeedEntry = None, checksumSignatureEntry = None,
      signaturePath = None, checksumsPath = None, checksumsSignaturePath = None,
      checksumPublicKeyEntry = None\<rparr>"

definition example_feed_url :: string where
  "example_feed_url = ''https://clawsec.prompt.security/advisories/feed.json''"

definition example_feed_path :: string where
  "example_feed_path = ''/suite/advisories/feed.json''"

text \<open>The remote platform with and without the checksum manifest, and the local one.\<close>

definition remote_with_checksums :: world where
  "remote_with_checksums = example_world (example_net ''feed-text'' True) no_disk"

definition remote_without_checksums :: world where
  "remote_without_checksums = example_world (example_net ''feed-text'' False) no_disk"

definition local_with_checksums :: world where
  "local_with_checksums = example_world example_net_down (example_disk ''feed-text'')"

definition local_without_checksums :: world where
  "local_without_checksums =
     example_world example_net_down
       ((example_disk ''feed-text'')(''/suite/advisories/checksums.json'' := None))"

section \<open>Feeds and advisories as the TypeScript types have them (lib/types.ts)\<close>

record Advisory =
  adv_id :: "string option"
  adv_severity :: "string option"
  adv_type :: "json option"
  adv_title :: "json option"
  adv_description :: "json option"
  adv_action :: "json option"
  adv_published :: "json option"
  adv_updated :: "json option"
  adv_affected :: "string list option"

record FeedPayload =
  feed_version :: string
  feed_updated :: "string option"
  feed_advisories :: "Advisory list"

record AdvisoryMatch =
  match_advisory :: Advisory
  match_skill :: InstalledSkill
  matchedAffected :: "string list"

text \<open>
  The view of a payload that the type guard \<^verbatim>\<open>raw is FeedPayload\<close> of
  \<^verbatim>\<open>isValidFeedPayload\<close> gives. The fields that the guard checks (\<^verbatim>\<open>version\<close>, and
  \<^verbatim>\<open>id\<close>, \<^verbatim>\<open>severity\<close> and the entries of \<^verbatim>\<open>affected\<close> of every advisory) are read as
  the strings they are in an accepted payload, and so is \<^verbatim>\<open>updated\<close> of the feed, which
  the handler reads only when it is a string. The other fields of an advisory are not
  checked, so they hold whatever JSON value the payload has there; \<^term>\<open>None\<close> is a field
  that is missing or null, the two cases that \<^verbatim>\<open>??\<close> treats alike.
\<close>

definition string_field :: "json \<Rightarrow> string \<Rightarrow> string option" where
  "string_field v key = (case get_prop v key of Some (JString s) \<Rightarrow> Some s | _ \<Rightarrow> None)"

definition value_field :: "json \<Rightarrow> string \<Rightarrow> json option" where
  "value_field v key =
     (case get_prop v key of None \<Rightarrow> None | Some JNull \<Rightarrow> None | Some x \<Rightarrow> Some x)"

text \<open>\<^verbatim>\<open>`${field ?? fallback}`\<close> and \<^verbatim>\<open>String(field ?? fallback)\<close>\<close>

definition text_or :: "json option \<Rightarrow> string \<Rightarrow> string" where
  "text_or field fallback = (case field of None \<Rightarrow> fallback | Some v \<Rightarrow> js_string v)"

text \<open>The lines for \<^verbatim>\<open>if (advisory.action)\<close>: the action when it is truthy.\<close>

definition action_line :: "string \<Rightarrow> json option \<Rightarrow> string list" where
  "action_line label action =
     (case action of
        None \<Rightarrow> []
      | Some v \<Rightarrow> if js_truthy v then [label @ js_string v] else [])"

definition json_strings :: "json list \<Rightarrow> string list" where
  "json_strings xs = concat (map (\<lambda>x. case x of JString s \<Rightarrow> [s] | _ \<Rightarrow> []) xs)"

definition advisory_of_json :: "json \<Rightarrow> Advisory" where
  "advisory_of_json a =
     \<lparr>adv_id = string_field a ''id'',
      adv_severity = string_field a ''severity'',
      adv_type = value_field a ''type'',
      adv_title = value_field a ''title'',
      adv_description = value_field a ''description'',
      adv_action = value_field a ''action'',
      adv_published = value_field a ''published'',
      adv_updated = value_field a ''updated'',
      adv_affected = (case get_prop a ''affected'' of
                        Some (JArray xs) \<Rightarrow> Some (json_strings xs)
                      | _ \<Rightarrow> None)\<rparr>"

definition feed_of_json :: "json \<Rightarrow> FeedPayload" where
  "feed_of_json payload =
     \<lparr>feed_version = nullish_or (string_field payload ''version'') [],
      feed_updated = string_field payload ''updated'',
      feed_advisories = (case get_prop payload ''advisories'' of
                           Some (JArray advisories) \<Rightarrow> map advisory_of_json advisories
                         | _ \<Rightarrow> [])\<rparr>"

section \<open>Match Engine (lib/matching.ts)\<close>

text \<open>\<^verbatim>\<open>Array.isArray(advisory.affected) ? advisory.affected : []\<close>\<close>

definition affected_of :: "Advisory \<Rightarrow> string list" where
  "affected_of advisory = (case adv_affected advisory of Some xs \<Rightarrow> xs | None \<Rightarrow> [])"

definition advisoryMatchesSkill :: "Advisory \<Rightarrow> InstalledSkill \<Rightarrow> string list" where
  "advisoryMatchesSkill advisory skill =
     uniqueStrings
       (filter (\<lambda>specifier. affectedSpecifierMatchesSkill specifier skill) (affected_of advisory))"

definition matches_of_advisory :: "Advisory \<Rightarrow> InstalledSkill list \<Rightarrow> AdvisoryMatch list" where
  "matches_of_advisory advisory installedSkills =
     (if length (affected_of advisory) = 0 then []
      else concat
             (map (\<lambda>skill.
                     (let matched = advisoryMatchesSkill advisory skill in
                      if length matched = 0 then []
                      else [\<lparr>match_advisory = advisory, match_skill = skill,
                             matchedAffected = matched\<rparr>]))
                  installedSkills))"

definition findMatches :: "FeedPayload \<Rightarrow> InstalledSkill list \<Rightarrow> AdvisoryMatch list" where
  "findMatches feed installedSkills =
     concat (map (\<lambda>advisory. matches_of_advisory advisory installedSkills) (feed_advisories feed))"

definition matchKey :: "AdvisoryMatch \<Rightarrow> string" where
  "matchKey m =
     (let normalizedSkillName = normalizeSkillName (skill_name (match_skill m));
          version = nullish_or (skill_version (match_skill m)) ''unknown'';
          advisoryId =
            nullish_or (adv_id (match_advisory m))
              (text_or (adv_title (match_advisory m)) ''untitled'' @ ''::'' @
               (case adv_published (match_advisory m) of
                  Some published \<Rightarrow> js_string published
                | None \<Rightarrow> text_or (adv_updated (match_advisory m)) ''unknown-ts''))
      in advisoryId @ ''::'' @ normalizedSkillName @ ''@'' @ version)"

text \<open>
  \<^verbatim>\<open>/\b(w1|w2|...)\b/.test(text)\<close> for alternatives that begin and end with a word
  character: some alternative occurs with no word character right before it and none right
  after it.
\<close>

definition isWordChar :: "char \<Rightarrow> bool" where
  "isWordChar c =
     (let n = (of_char c :: nat) in
      (97 \<le> n \<and> n \<le> 122) \<or> (65 \<le> n \<and> n \<le> 90) \<or> (48 \<le> n \<and> n \<le> 57) \<or> n = 95)"

definition word_here :: "string \<Rightarrow> string \<Rightarrow> bool" where
  "word_here word s =
     (take (length word) s = word
      \<and> (case drop (length word) s of [] \<Rightarrow> True | c # _ \<Rightarrow> \<not> isWordChar c))"

fun words_test_from :: "string list \<Rightarrow> bool \<Rightarrow> string \<Rightarrow> bool" where
  "words_test_from ws afterWordChar [] = False"
| "words_test_from ws afterWordChar (c # cs) =
     ((\<not> afterWordChar \<and> list_ex (\<lambda>word. word_here word (c # cs)) ws)
      \<or> words_test_from ws (isWordChar c) cs)"

definition words_test :: "string list \<Rightarrow> string \<Rightarrow> bool" where
  "words_test ws s = words_test_from ws False s"

definition looksMalicious :: "Advisory \<Rightarrow> bool" where
  "looksMalicious advisory =
     (let type = toLowerCase (text_or (adv_type advisory) []);
          combined = toLowerCase (text_or (adv_title advisory) [] @ '' '' @
                                  text_or (adv_description advisory) [] @ '' '' @
                                  text_or (adv_action advisory) [])
      in if type = ''malicious_skill'' \<or> type = ''malicious_plugin'' then True
         else if words_test [''malicious'', ''exfiltrate'', ''exfiltration'', ''backdoor'', ''trojan'',
                             ''credential theft'', ''stealer''] combined then True
         else False)"

definition looksRemovalRecommended :: "Advisory \<Rightarrow> bool" where
  "looksRemovalRecommended advisory =
     (let combined = toLowerCase (text_or (adv_action advisory) [] @ '' '' @
                                  text_or (adv_title advisory) [] @ '' '' @
                                  text_or (adv_description advisory) [])
      in words_test [''remove'', ''uninstall'', ''delete'', ''disable'', ''do not use'', ''quarantine'']
           combined)"

definition alert_match_lines :: "AdvisoryMatch \<Rightarrow> string list" where
  "alert_match_lines m =
     (let severity = toUpperCase (nullish_or (adv_severity (match_advisory m)) ''unknown'');
          advisoryId = nullish_or (adv_id (match_advisory m)) ''unknown-id'';
          version = nullish_or (skill_version (match_skill m)) ''unknown'';
          matched = join_with '', '' (matchedAffected m)
      in (''- ['' @ severity @ ''] '' @ advisoryId @ '' -> '' @ skill_name (match_skill m) @ ''@'' @
          version @ (if matched \<noteq> [] then '' (matched: '' @ matched @ '')'' else []))
         # action_line ''  Action: '' (adv_action (match_advisory m)))"

definition buildAlertMessage :: "world \<Rightarrow> AdvisoryMatch list \<Rightarrow> string \<Rightarrow> string" where
  "buildAlertMessage w matches installRoot =
     (let removalMatches =
            filter (\<lambda>entry. looksMalicious (match_advisory entry)
                             \<or> looksRemovalRecommended (match_advisory entry)) matches
      in join_with [CHR 0x0A]
           ([''CLAWSEC ALERT: advisory feed matches installed skill(s).'',
             ''Affected skill advisories:'']
            @ concat (map alert_match_lines (take 8 matches))
            @ (if length matches > 8
               then [''- ... '' @ decimal (length matches - 8) @ '' additional match(es) not shown'']
               else [])
            @ (if length removalMatches > 0
               then ['''',
                     ''Recommendation: one or more matches indicate potentially malicious or unsafe skills.'',
                     ''Best practice: remove or disable affected skills only after explicit user approval.'',
                     ''Double-confirmation policy: treat the install request as first intent and require an additional explicit confirmation with this advisory context.'',
                     ''Approval needed: ask the user to approve removal of: '' @
                       join_with '', ''
                         (uniqueStrings (map (\<lambda>entry. skill_name (match_skill entry)) removalMatches))
                       @ ''.'',
                     ''Candidate removal paths:'']
                    @ map (\<lambda>dir. ''- '' @ path_join w installRoot dir)
                        (uniqueStrings (map (\<lambda>entry. skill_dirName (match_skill entry)) removalMatches))
               else ['''',
                     ''Recommendation: review advisories and update/remove affected skills as directed.''])))"

section \<open>State Store (lib/state.ts)\<close>

record AdvisoryState =
  schema_version :: string
  known_advisories :: "string list"
  last_feed_check :: "string option"
  last_feed_updated :: "string option"
  last_hook_scan :: "string option"
  notified_matches :: "(string \<times> string) list"

definition DEFAULT_STATE :: AdvisoryState where
  "DEFAULT_STATE =
     \<lparr>schema_version = ''1.1'', known_advisories = [], last_feed_check = None,
      last_feed_updated = None, last_hook_scan = None, notified_matches = []\<rparr>"

text \<open>The state object as the JSON value that \<^verbatim>\<open>normalizeState\<close> and \<^verbatim>\<open>JSON.stringify\<close> see.\<close>

definition json_of_option :: "string option \<Rightarrow> json" where
  "json_of_option v = (case v of None \<Rightarrow> JNull | Some s \<Rightarrow> JString s)"

definition state_to_json :: "AdvisoryState \<Rightarrow> json" where
  "state_to_json s =
     JObject [(''schema_version'', JString (schema_version s)),
              (''known_advisories'', JArray (map JString (known_advisories s))),
              (''last_feed_check'', json_of_option (last_feed_check s)),
              (''last_feed_updated'', json_of_option (last_feed_updated s)),
              (''last_hook_scan'', json_of_option (last_hook_scan s)),
              (''notified_matches'',
               JObject (map (\<lambda>(k, v). (k, JString v)) (notified_matches s)))]"

text \<open>\<^verbatim>\<open>values.filter((v) => typeof v === "string" && v.trim() !== "")\<close>\<close>

definition nonblank_strings :: "json list \<Rightarrow> string list" where
  "nonblank_strings xs =
     concat (map (\<lambda>x. case x of JString s \<Rightarrow> if trim s \<noteq> [] then [s] else [] | _ \<Rightarrow> []) xs)"

fun normalize_notified :: "(string \<times> json) list \<Rightarrow> (string \<times> string) list \<Rightarrow> (string \<times> string) list" where
  "normalize_notified [] acc = acc"
| "normalize_notified ((key, v) # rest) acc =
     normalize_notified rest
       (case v of
          JString s \<Rightarrow> if trim s \<noteq> [] then obj_set acc key s else acc
        | _ \<Rightarrow> acc)"

definition normalizeState :: "json \<Rightarrow> AdvisoryState" where
  "normalizeState raw =
     (if \<not> isObject raw then DEFAULT_STATE
      else
        \<lparr>schema_version = ''1.1'',
         known_advisories =
           (case get_prop raw ''known_advisories'' of
              Some (JArray xs) \<Rightarrow> uniqueStrings (nonblank_strings xs)
            | _ \<Rightarrow> []),
         last_feed_check = string_field raw ''last_feed_check'',
         last_feed_updated = string_field raw ''last_feed_updated'',
         last_hook_scan = string_field raw ''last_hook_scan'',
         notified_matches =
           (case get_prop raw ''notified_matches'' of
              Some m \<Rightarrow> if isObject m then normalize_notified (object_entries m) [] else []
            | None \<Rightarrow> [])\<rparr>)"

text \<open>
  The state file is held as the JSON value that \<^verbatim>\<open>JSON.parse\<close> reads from it, \<^term>\<open>None\<close>
  when the file is missing or does not parse; \<^verbatim>\<open>JSON.parse\<close> is taken to read back the
  value that \<^verbatim>\<open>JSON.stringify\<close> wrote.
\<close>

definition loadState :: "json option \<Rightarrow> AdvisoryState" where
  "loadState file = (case file of None \<Rightarrow> DEFAULT_STATE | Some raw \<Rightarrow> normalizeState raw)"

text \<open>
  What the file system does with the writes of \<^verbatim>\<open>persistState\<close>: everything succeeds; or
  \<^verbatim>\<open>mkdir\<close>, \<^verbatim>\<open>writeFile\<close> or \<^verbatim>\<open>rename\<close> rejects, and the state file is as before; or the
  file is renamed into place and \<^verbatim>\<open>chmod\<close> then fails, with \<^verbatim>\<open>ENOTSUP\<close> or \<^verbatim>\<open>EPERM\<close> (a
  warning) or with another code (thrown again).
\<close>

datatype fs_outcome = WriteOk | WriteFails | ChmodUnsupported string | ChmodFails

text \<open>The result is the state file, the outcome of the call and the warnings it logs.\<close>

definition persistState ::
  "fs_outcome \<Rightarrow> string \<Rightarrow> AdvisoryState \<Rightarrow> json option \<Rightarrow> json option \<times> (error + unit) \<times> string list" where
  "persistState fs stateFile state file =
     (let normalized = normalizeState (state_to_json state);
          written = Some (state_to_json normalized)
      in case fs of
           WriteFails \<Rightarrow> (file, Inl (FileError stateFile), [])
         | WriteOk \<Rightarrow> (written, Inr (), [])
         | ChmodUnsupported code \<Rightarrow>
             (written, Inr (),
              [''Warning: chmod 0600 failed for '' @ stateFile @ '' ('' @ code @ ''). '' @
               ''File permissions may not be enforced on this platform/filesystem.''])
         | ChmodFails \<Rightarrow> (written, Inl (FileError stateFile), []))"

section \<open>Hook Entry Point (handler.ts)\<close>

record HookEvent =
  ev_type :: "string option"
  ev_action :: "string option"
  ev_messages :: "string list option"

text \<open>
  The values the handler computes from the process environment before it does anything
  else: the URLs and paths of the feed artifacts, the state file, the install root, the
  scan interval, and the two flags.
\<close>

record hook_config =
  cfg_feedUrl :: string
  cfg_feedSignatureUrl :: string
  cfg_feedChecksumsUrl :: string
  cfg_feedChecksumsSignatureUrl :: string
  cfg_localFeedPath :: string
  cfg_localFeedSignaturePath :: string
  cfg_localFeedChecksumsPath :: string
  cfg_localFeedChecksumsSignaturePath :: string
  cfg_feedPublicKeyPath :: string
  cfg_allowUnsigned :: bool
  cfg_verifyChecksumManifest :: bool
  cfg_installRoot :: string
  cfg_stateFile :: string
  cfg_scanIntervalSeconds :: int

text \<open>
  What one invocation finds beside the platform of the loaders: the clock
  (\<^verbatim>\<open>Date.now()\<close>, \<^verbatim>\<open>new Date().toISOString()\<close>, and \<^verbatim>\<open>Date.parse\<close> with \<^term>\<open>None\<close> for
  \<^verbatim>\<open>NaN\<close>), the directory listing of \<^verbatim>\<open>fs.readdir\<close> (each entry with its
  \<^verbatim>\<open>isDirectory()\<close>, \<^term>\<open>None\<close> when it rejects), and what the file system does with the
  writes of \<^verbatim>\<open>persistState\<close>.
\<close>

record hook_env =
  now_ms :: int
  nowIso :: string
  Date_parse :: "string \<Rightarrow> int option"
  readdir :: "string \<Rightarrow> (string \<times> bool) list option"
  persist_outcome :: fs_outcome

definition toEventName :: "HookEvent \<Rightarrow> string" where
  "toEventName event =
     (let eventType = trim (nullish_or (ev_type event) []);
          action = trim (nullish_or (ev_action event) [])
      in if eventType = [] \<or> action = [] then [] else eventType @ '':'' @ action)"

definition shouldHandleEvent :: "HookEvent \<Rightarrow> bool" where
  "shouldHandleEvent event =
     (let eventName = toEventName event in
      eventName = ''agent:bootstrap'' \<or> eventName = ''command:new'')"

definition epochMs :: "hook_env \<Rightarrow> string option \<Rightarrow> int" where
  "epochMs env isoTimestamp =
     (case isoTimestamp of
        None \<Rightarrow> 0
      | Some t \<Rightarrow> if t = [] then 0 else (case Date_parse env t of None \<Rightarrow> 0 | Some parsed \<Rightarrow> parsed))"

definition scannedRecently :: "hook_env \<Rightarrow> string option \<Rightarrow> int \<Rightarrow> bool" where
  "scannedRecently env lastScan minIntervalSeconds =
     (let sinceMs = now_ms env - epochMs env lastScan in
      sinceMs \<ge> 0 \<and> sinceMs < minIntervalSeconds * 1000)"

definition skill_of_entry :: "world \<Rightarrow> string \<Rightarrow> string \<Rightarrow> InstalledSkill" where
  "skill_of_entry w root entryName =
     (let skillJsonPath = path_join w (path_join w root entryName) ''skill.json'';
          parsedSkillJson =
            (case readFile w skillJsonPath of
               None \<Rightarrow> None
             | Some rawSkillJson \<Rightarrow> JSON_parse w rawSkillJson)
      in case parsedSkillJson of
           None \<Rightarrow> \<lparr>skill_name = entryName, skill_dirName = entryName,
                      skill_version = Some ''unknown''\<rparr>
         | Some parsed \<Rightarrow>
             \<lparr>skill_name =
                (if isObject parsed \<and> nonblank_string (get_prop parsed ''name'')
                 then trim (nullish_or (string_field parsed ''name'') [])
                 else entryName),
              skill_dirName = entryName,
              skill_version =
                (if isObject parsed \<and> nonblank_string (get_prop parsed ''version'')
                 then Some (trim (nullish_or (string_field parsed ''version'') []))
                 else Some ''unknown'')\<rparr>)"

definition discoverInstalledSkills :: "world \<Rightarrow> hook_env \<Rightarrow> string \<Rightarrow> InstalledSkill list" where
  "discoverInstalledSkills w env root =
     (case readdir env root of
        None \<Rightarrow> []
      | Some entries \<Rightarrow>
          concat (map (\<lambda>(entryName, isDirectory).
                         if \<not> isDirectory then [] else [skill_of_entry w root entryName])
                      entries))"

text \<open>\<^verbatim>\<open>loadFeed\<close> of the handler: the remote feed first, the local one when that gives null.\<close>

definition remote_options_of :: "hook_config \<Rightarrow> string \<Rightarrow> remote_options" where
  "remote_options_of cfg pem =
     \<lparr>publicKeyPem = Some pem, checksumsPublicKeyPem = Some pem,
      allowUnsigned = Some (cfg_allowUnsigned cfg),
      verifyChecksumManifest = Some (cfg_verifyChecksumManifest cfg),
      checksumFeedEntry = None, checksumSignatureEntry = None,
      signatureUrl = Some (cfg_feedSignatureUrl cfg), checksumsUrl = Some (cfg_feedChecksumsUrl cfg),
      checksumsSignatureUrl = Some (cfg_feedChecksumsSignatureUrl cfg)\<rparr>"

definition local_options_of :: "world \<Rightarrow> hook_config \<Rightarrow> string \<Rightarrow> local_options" where
  "local_options_of w cfg pem =
     \<lparr>publicKeyPem = Some pem, checksumsPublicKeyPem = Some pem,
      allowUnsigned = Some (cfg_allowUnsigned cfg),
      verifyChecksumManifest = Some (cfg_verifyChecksumManifest cfg),
      checksumFeedEntry = None, checksumSignatureEntry = None,
      signaturePath = Some (cfg_localFeedSignaturePath cfg),
      checksumsPath = Some (cfg_localFeedChecksumsPath cfg),
      checksumsSignaturePath = Some (cfg_localFeedChecksumsSignaturePath cfg),
      checksumPublicKeyEntry = Some (path_basename w (cfg_feedPublicKeyPath cfg))\<rparr>"

definition loadFeed :: "world \<Rightarrow> hook_config \<Rightarrow> error + json" where
  "loadFeed w cfg =
     (case (if cfg_allowUnsigned cfg then Some [] else readFile w (cfg_feedPublicKeyPath cfg)) of
        None \<Rightarrow> Inl (FileError (cfg_feedPublicKeyPath cfg))
      | Some pem \<Rightarrow>
          (case loadRemoteFeed w (cfg_feedUrl cfg) (remote_options_of cfg pem) of
             Inl e \<Rightarrow> Inl e
           | Inr (Some remoteFeed) \<Rightarrow> Inr remoteFeed
           | Inr None \<Rightarrow> loadLocalFeed w (cfg_localFeedPath cfg) (local_options_of w cfg pem)))"

text \<open>\<^verbatim>\<open>String(error)\<close>; the texts of the platform's own errors stand for themselves.\<close>

definition error_text :: "error \<Rightarrow> string" where
  "error_text e =
     (case e of
        SecurityPolicyError msg \<Rightarrow> ''SecurityPolicyError: '' @ msg
      | Error msg \<Rightarrow> ''Error: '' @ msg
      | FileError path \<Rightarrow> ''Error: cannot access '' @ path
      | FetchError \<Rightarrow> ''TypeError: fetch failed''
      | SyntaxError \<Rightarrow> ''SyntaxError: invalid JSON'')"

text \<open>The steps of the handler after a feed has loaded, up to the discovery of the skills.\<close>

definition feed_advisory_ids :: "FeedPayload \<Rightarrow> string list" where
  "feed_advisory_ids feed =
     concat (map (\<lambda>advisory. case adv_id advisory of
                                 Some i \<Rightarrow> if trim i \<noteq> [] then [i] else []
                               | None \<Rightarrow> [])
                 (feed_advisories feed))"

definition record_feed :: "string \<Rightarrow> FeedPayload \<Rightarrow> AdvisoryState \<Rightarrow> AdvisoryState" where
  "record_feed now feed state =
     state\<lparr>last_hook_scan := Some now,
           last_feed_check := Some now,
           last_feed_updated :=
             (case feed_updated feed of
                Some u \<Rightarrow> if trim u \<noteq> [] then Some u else last_feed_updated state
              | None \<Rightarrow> last_feed_updated state),
           known_advisories := uniqueStrings (known_advisories state @ feed_advisory_ids feed)\<rparr>"

text \<open>\<^verbatim>\<open>if (state.notified_matches[key])\<close>: the key has a non-empty value.\<close>

definition notified :: "(string \<times> string) list \<Rightarrow> string \<Rightarrow> bool" where
  "notified table key = (case map_of table key of Some v \<Rightarrow> v \<noteq> [] | None \<Rightarrow> False)"

text \<open>
  The loop over the matches: the table of notified matches and the unseen matches, both
  as they stand when the loop ends.
\<close>

fun mark_unseen ::
  "string \<Rightarrow> AdvisoryMatch list \<Rightarrow> (string \<times> string) list \<Rightarrow> AdvisoryMatch list
   \<Rightarrow> (string \<times> string) list \<times> AdvisoryMatch list" where
  "mark_unseen now [] table unseen = (table, unseen)"
| "mark_unseen now (m # ms) table unseen =
     (let key = matchKey m in
      if notified table key then mark_unseen now ms table unseen
      else mark_unseen now ms (obj_set table key now) (unseen @ [m]))"

text \<open>
  What an invocation leaves behind: the state file, the messages of the event, the
  warnings logged, the states \<^verbatim>\<open>persistState\<close> was called with, the in-memory state object
  and the unseen matches at the return, whether the promise resolved, and the process-wide
  flag of the unsigned-mode warning.
\<close>

record hook_run =
  run_file :: "json option"
  run_messages :: "string list option"
  run_warnings :: "string list"
  run_persisted :: "AdvisoryState list"
  run_state :: "AdvisoryState option"
  run_unseen :: "AdvisoryMatch list"
  run_outcome :: "error + unit"
  run_warningShown :: bool

definition finish_with_persist ::
  "hook_env \<Rightarrow> hook_config \<Rightarrow> json option \<Rightarrow> string list option \<Rightarrow> string list \<Rightarrow> bool
   \<Rightarrow> AdvisoryState \<Rightarrow> AdvisoryMatch list \<Rightarrow> hook_run" where
  "finish_with_persist env cfg file messages warnings shown state unseen =
     (case persistState (persist_outcome env) (cfg_stateFile cfg) state file of
        (file', outcome, persistWarnings) \<Rightarrow>
          \<lparr>run_file = file', run_messages = messages, run_warnings = warnings @ persistWarnings,
           run_persisted = [state], run_state = Some state, run_unseen = unseen,
           run_outcome = outcome, run_warningShown = shown\<rparr>)"

definition scan_feed ::
  "world \<Rightarrow> hook_env \<Rightarrow> hook_config \<Rightarrow> HookEvent \<Rightarrow> json option \<Rightarrow> string list \<Rightarrow> bool
   \<Rightarrow> AdvisoryState \<Rightarrow> FeedPayload \<Rightarrow> hook_run" where
  "scan_feed w env cfg event file warnings shown state0 feed =
     (let state = record_feed (nowIso env) feed state0;
          installedSkills = discoverInstalledSkills w env (cfg_installRoot cfg);
          matches = findMatches feed installedSkills
      in if length matches = 0
         then finish_with_persist env cfg file (ev_messages event) warnings shown state []
         else
           (case mark_unseen (nowIso env) matches (notified_matches state) [] of
              (table, unseenMatches) \<Rightarrow>
                finish_with_persist env cfg file
                  (case ev_messages event of
                     Some messages \<Rightarrow>
                       if length unseenMatches > 0
                       then Some (messages @ [buildAlertMessage w unseenMatches (cfg_installRoot cfg)])
                       else Some messages
                   | None \<Rightarrow> None)
                  warnings shown (state\<lparr>notified_matches := table\<rparr>) unseenMatches))"

definition unsigned_warning :: string where
  "unsigned_warning =
     ''[clawsec-advisory-guardian] CLAWSEC_ALLOW_UNSIGNED_FEED=1 is enabled. '' @
     ''This bypass is temporary migration compatibility and should be removed as soon as signed feed artifacts are available.''"

definition handler ::
  "world \<Rightarrow> hook_env \<Rightarrow> hook_config \<Rightarrow> HookEvent \<Rightarrow> json option \<Rightarrow> bool \<Rightarrow> hook_run" where
  "handler w env cfg event file unsignedModeWarningShown =
     (if \<not> shouldHandleEvent event
      then \<lparr>run_file = file, run_messages = ev_messages event, run_warnings = [],
            run_persisted = [], run_state = None, run_unseen = [], run_outcome = Inr (),
            run_warningShown = unsignedModeWarningShown\<rparr>
      else
        (let warnings = (if cfg_allowUnsigned cfg \<and> \<not> unsignedModeWarningShown
                         then [unsigned_warning] else []);
             shown = (unsignedModeWarningShown \<or> cfg_allowUnsigned cfg);
             forceScan = (toEventName event = ''command:new'');
             state = loadState file
         in if \<not> forceScan \<and> scannedRecently env (last_hook_scan state) (cfg_scanIntervalSeconds cfg)
            then \<lparr>run_file = file, run_messages = ev_messages event, run_warnings = warnings,
                  run_persisted = [], run_state = Some state, run_unseen = [],
                  run_outcome = Inr (), run_warningShown = shown\<rparr>
            else
              (case loadFeed w cfg of
                 Inl e \<Rightarrow>
                   \<lparr>run_file = file, run_messages = ev_messages event,
                    run_warnings = warnings @
                      [''[clawsec-advisory-guardian] failed to load advisory feed: '' @ error_text e],
                    run_persisted = [], run_state = Some state, run_unseen = [],
                    run_outcome = Inr (), run_warningShown = shown\<rparr>
               | Inr payload \<Rightarrow>
                   scan_feed w env cfg event file warnings shown state (feed_of_json payload))))"

text \<open>The handler passes the event filter and the rate limit.\<close>

definition scan_due :: "hook_env \<Rightarrow> hook_config \<Rightarrow> HookEvent \<Rightarrow> json option \<Rightarrow> bool" where
  "scan_due env cfg event file =
     (shouldHandleEvent event
      \<and> (toEventName event = ''command:new''
         \<or> \<not> scannedRecently env (last_hook_scan (loadState file)) (cfg_scanIntervalSeconds cfg)))"

text \<open>The advisory ids the state file holds, as the next \<^verbatim>\<open>loadState\<close> reads them.\<close>

definition stored_advisories :: "json option \<Rightarrow> string set" where
  "stored_advisories file = set (known_advisories (loadState file))"

text \<open>A sequence of invocations, each with its platform, environment and event.\<close>

fun run_hooks ::
  "hook_config \<Rightarrow> (world \<times> hook_env \<times> HookEvent) list \<Rightarrow> json option \<Rightarrow> bool \<Rightarrow> json option" where
  "run_hooks cfg [] file shown = file"
| "run_hooks cfg ((w, env, event) # rest) file shown =
     (let r = handler w env cfg event file shown in
      run_hooks cfg rest (run_file r) (run_warningShown r))"

text \<open>A key of the table has a non-blank value; every value of the table is non-blank.\<close>

definition recorded :: "(string \<times> string) list \<Rightarrow> string \<Rightarrow> bool" where
  "recorded t k = (\<exists>v. map_of t k = Some v \<and> trim v \<noteq> [])"

definition all_nonblank :: "(string \<times> string) list \<Rightarrow> bool" where
  "all_nonblank t = (\<forall>(k, v) \<in> set t. trim v \<noteq> [])"

subsection \<open>A concrete installation\<close>

text \<open>
  The platform of the examples above with the public key and one installed skill,
  \<^verbatim>\<open>ext\<close> at version 1.0.0, on its disk; the feed it serves names \<^verbatim>\<open>ext@1.0.0\<close>.
\<close>

definition hook_disk :: "string \<Rightarrow> string option" where
  "hook_disk path =
     (if path = ''/suite/advisories/feed-signing-public.pem'' then Some ''key''
      else if path = ''/skills/ext/skill.json'' then Some ''ext-skill-json''
      else None)"

definition hook_world :: world where
  "hook_world = example_world (example_net ''feed-text'' True) hook_disk"

definition hook_cfg :: hook_config where
  "hook_cfg =
     \<lparr>cfg_feedUrl = ''https://clawsec.prompt.security/advisories/feed.json'',
      cfg_feedSignatureUrl = ''https://clawsec.prompt.security/advisories/feed.json.sig'',
      cfg_feedChecksumsUrl = ''https://clawsec.prompt.security/advisories/checksums.json'',
      cfg_feedChecksumsSignatureUrl = ''https://clawsec.prompt.security/advisories/checksums.json.sig'',
      cfg_localFeedPath = ''/suite/advisories/feed.json'',
      cfg_localFeedSignaturePath = ''/suite/advisories/feed.json.sig'',
      cfg_localFeedChecksumsPath = ''/suite/advisories/checksums.json'',
      cfg_localFeedChecksumsSignaturePath = ''/suite/advisories/checksums.json.sig'',
      cfg_feedPublicKeyPath = ''/suite/advisories/feed-signing-public.pem'',
      cfg_allowUnsigned = False,
      cfg_verifyChecksumManifest = True,
      cfg_installRoot = ''/skills'',
      cfg_stateFile = ''/state.json'',
      cfg_scanIntervalSeconds = 300\<rparr>"

definition hook_env_at :: "int \<Rightarrow> string \<Rightarrow> (string \<times> bool) list option \<Rightarrow> hook_env" where
  "hook_env_at ms stamp listing =
     \<lparr>now_ms = ms, nowIso = stamp,
      Date_parse = (\<lambda>t. if t = ''2026-02-08T12:00:00.000Z'' then Some 1770552000000 else None),
      readdir = (\<lambda>root. if root = ''/skills'' then listing else None),
      persist_outcome = WriteOk\<rparr>"

definition first_env :: hook_env where
  "first_env = hook_env_at 1770552000000 ''2026-02-08T12:00:00.000Z'' (Some [(''ext'', True)])"

definition second_env :: hook_env where
  "second_env = hook_env_at 1770552060000 ''2026-02-08T12:01:00.000Z'' (Some [(''ext'', True)])"


definition bootstrap_event :: HookEvent where
  "bootstrap_event = \<lparr>ev_type = Some ''agent'', ev_action = Some ''bootstrap'', ev_messages = Some []\<rparr>"

definition new_event :: HookEvent where
  "new_event = \<lparr>ev_type = Some ''command'', ev_action = Some ''new'', ev_messages = Some []\<rparr>"

definition first_run :: hook_run where
  "first_run = handler hook_world first_env hook_cfg bootstrap_event None False"

definition second_run :: hook_run where
  "second_run = handler hook_world second_env hook_cfg new_event (run_file first_run) False"

section \<open>Guard Gate (scripts/guarded_skill_install.mjs)\<close>

























section \<open>Properties of the Version Matcher\<close>

lemma trim_star: "trim ''*'' = ''*''"
  by (simp add: trim_def trimStart_def trimEnd_def isWhiteSpace_def)

lemma versionMatches_star: "versionMatches v ''*''"
  by (simp add: versionMatches_def trim_star spec_is_any_def)

text \<open>
  C3. The version matcher gives the values of the specification's table:
  \<^verbatim>\<open>versionMatches("1.2.3","^1.0.0")\<close> is true, \<^verbatim>\<open>versionMatches("2.0.0","^1.0.0")\<close> is
  false, \<^verbatim>\<open>versionMatches("1.2.3","~1.2.0")\<close> is true, \<^verbatim>\<open>versionMatches("1.3.0","~1.2.0")\<close>
  is false, \<^verbatim>\<open>versionMatches("unknown","1.2.3")\<close> is false, and every installed version
  (a string, or none at all) matches the spec \<^verbatim>\<open>"*"\<close>.
\<close>

theorem versionMatches_table:
  "versionMatches (Some ''1.2.3'') ''^1.0.0'' = True
   \<and> versionMatches (Some ''2.0.0'') ''^1.0.0'' = False
   \<and> versionMatches (Some ''1.2.3'') ''~1.2.0'' = True
   \<and> versionMatches (Some ''1.3.0'') ''~1.2.0'' = False
   \<and> versionMatches (Some ''unknown'') ''1.2.3'' = False
   \<and> (\<forall>v. versionMatches (Some v) ''*'' = True)
   \<and> versionMatches None ''*'' = True"
proof -
  have a: "versionMatches (Some ''1.2.3'') ''^1.0.0'' = True" by code_simp
  have b: "versionMatches (Some ''2.0.0'') ''^1.0.0'' = False" by code_simp
  have c: "versionMatches (Some ''1.2.3'') ''~1.2.0'' = True" by code_simp
  have d: "versionMatches (Some ''1.3.0'') ''~1.2.0'' = False" by code_simp
  have e: "versionMatches (Some ''unknown'') ''1.2.3'' = False" by code_simp
  show ?thesis using a b c d e by (simp add: versionMatches_star)
qed

lemma three_components_None:
  "length xs = 3 \<Longrightarrow>
   ((case xs of [Some a, Some b, Some c] \<Rightarrow> Some (a, b, c) | _ \<Rightarrow> None) = None) = (None \<in> set xs)"
  by (auto simp: length_Suc_conv numeral_3_eq_3 split: list.splits option.splits)

lemma split_on_nonempty: "split_on d s \<noteq> []"
  by (induction s) (auto split: list.splits)

lemma semver_components_length: "length (semver_components v) = 3"
  by (simp add: semver_components_def Let_def)

lemma parseSemver_None_iff:
  "(parseSemver v = None) =
   (\<exists>p\<in>set (take 3 (split_on CHR ''.'' (cleaned_version v))). parseInt10 p = None)"
proof -
  have "(parseSemver v = None) = (None \<in> set (semver_components v))"
    using three_components_None [OF semver_components_length [of v]]
    by (simp add: parseSemver_def Let_def split_on_nonempty)
  also have "\<dots> =
      (\<exists>p\<in>set (take 3 (split_on CHR ''.'' (cleaned_version v))). parseInt10 p = None)"
    unfolding semver_components_def Let_def by force
  finally show ?thesis .
qed

lemma compareSemver_None:
  "parseSemver l = None \<or> parseSemver r = None \<Longrightarrow> compareSemver l r = None"
  by (auto simp: compareSemver_def split: option.splits)

lemma caret_matches_None:
  "parseSemver nv = None \<or> parseSemver (tl spec) = None \<Longrightarrow> \<not> caret_matches nv spec"
  by (auto simp: caret_matches_def split: option.splits)

lemma tilde_matches_None:
  "parseSemver nv = None \<or> parseSemver (tl spec) = None \<Longrightarrow> \<not> tilde_matches nv spec"
  by (auto simp: tilde_matches_def split: option.splits)

lemma comparatorMatch_first:
  "comparatorMatch s = Some x \<Longrightarrow>
   \<exists>cs. s = CHR ''>'' # cs \<or> s = CHR ''<'' # cs \<or> s = CHR ''='' # cs"
  by (cases s) (auto simp: comparatorMatch_def split: if_splits option.splits)

lemma comparator_not_any:
  "comparatorMatch s = Some x \<Longrightarrow> CHR ''*'' \<notin> set s \<Longrightarrow> \<not> spec_is_any s"
  using comparatorMatch_first [of s x]
  by (auto simp: spec_is_any_def toLowerCase_def lowerChar_def)

lemma caret_tilde_not_any: "take 1 s = ''^'' \<or> take 1 s = ''~'' \<Longrightarrow> \<not> spec_is_any s"
  by (cases s) (auto simp: spec_is_any_def toLowerCase_def lowerChar_def)

lemma comparator_rule_unparseable:
  assumes "CHR ''*'' \<notin> set (trim rawSpec)"
    and "comparatorMatch (trim rawSpec) = Some (operator, target)"
    and "parseSemver (normalizedVersion installed) = None \<or> parseSemver (trim target) = None"
  shows "\<not> versionMatches (Some installed) rawSpec"
  using assms compareSemver_None [of "normalizedVersion installed" "trim target"]
    comparator_not_any [of "trim rawSpec" "(operator, target)"]
  by (auto simp: versionMatches_def Let_def)

lemma caret_tilde_rule_unparseable:
  assumes "CHR ''*'' \<notin> set (trim rawSpec)"
    and "comparatorMatch (trim rawSpec) = None"
    and "take 1 (trim rawSpec) = ''^'' \<or> take 1 (trim rawSpec) = ''~''"
    and "parseSemver (normalizedVersion installed) = None \<or> parseSemver (tl (trim rawSpec)) = None"
  shows "\<not> versionMatches (Some installed) rawSpec"
  using assms caret_matches_None [of "normalizedVersion installed" "trim rawSpec"]
    tilde_matches_None [of "normalizedVersion installed" "trim rawSpec"]
    caret_tilde_not_any [of "trim rawSpec"]
  by (auto simp: versionMatches_def Let_def)

text \<open>
  C8, as the code has it. Stated for every version string with a non-numeric component,
  the claim fails: \<^verbatim>\<open>parseInt\<close> reads the digits a component starts with and ignores the
  rest, and only the first three components are read, so \<^verbatim>\<open>"1.2x.3"\<close> parses to
  \<open>(1, 2, 3)\<close> and satisfies \<^verbatim>\<open>">=1.0.0"\<close>.
\<close>

theorem parseSemver_lenient_counterexample:
  "parseSemver ''1.2x.3'' = Some (1, 2, 3) \<and> versionMatches (Some ''1.2x.3'') ''>=1.0.0''"
proof -
  have a: "parseSemver ''1.2x.3'' = Some (1, 2, 3)" by code_simp
  have b: "versionMatches (Some ''1.2x.3'') ''>=1.0.0''" by code_simp
  show ?thesis using a b by simp
qed

text \<open>
  C8, amended. \<^verbatim>\<open>parseSemver\<close> returns null exactly when one of the first three
  dot-separated components of the cleaned version (trimmed, one leading v removed, cut at
  the first hyphen) does not start, after white space and one sign, with a decimal digit.
  \<^verbatim>\<open>versionMatches\<close> returns false whenever \<^verbatim>\<open>parseSemver\<close> is null for the normalized
  installed version or for the target of the spec, and the spec (which holds no star) is
  dispatched to the comparator rule, the caret rule or the tilde rule.
\<close>

theorem unparseable_version_never_matches:
  "(parseSemver v = None) =
     (\<exists>p\<in>set (take 3 (split_on CHR ''.'' (cleaned_version v))). parseInt10 p = None)
   \<and> (CHR ''*'' \<notin> set (trim rawSpec)
        \<and> comparatorMatch (trim rawSpec) = Some (operator, target)
        \<and> (parseSemver (normalizedVersion installed) = None \<or> parseSemver (trim target) = None)
      \<longrightarrow> \<not> versionMatches (Some installed) rawSpec)
   \<and> (CHR ''*'' \<notin> set (trim rawSpec')
        \<and> comparatorMatch (trim rawSpec') = None
        \<and> (take 1 (trim rawSpec') = ''^'' \<or> take 1 (trim rawSpec') = ''~'')
        \<and> (parseSemver (normalizedVersion installed') = None
             \<or> parseSemver (tl (trim rawSpec')) = None)
      \<longrightarrow> \<not> versionMatches (Some installed') rawSpec')"
  using parseSemver_None_iff [of v]
    comparator_rule_unparseable [of rawSpec operator target installed]
    caret_tilde_rule_unparseable [of rawSpec' installed']
  by blast

theorem unparseable_version_never_matches_witness:
  "parseSemver ''1.x.3'' = None
   \<and> CHR ''*'' \<notin> set (trim ''>= 1.0.0'')
   \<and> comparatorMatch (trim ''>= 1.0.0'') = Some (''>='', ''1.0.0'')
   \<and> parseSemver (normalizedVersion ''1.x.3'') = None
   \<and> \<not> versionMatches (Some ''1.x.3'') ''>= 1.0.0''
   \<and> CHR ''*'' \<notin> set (trim ''^1.x'')
   \<and> comparatorMatch (trim ''^1.x'') = None
   \<and> take 1 (trim ''^1.x'') = ''^''
   \<and> parseSemver (tl (trim ''^1.x'')) = None
   \<and> \<not> versionMatches (Some ''1.2.3'') ''^1.x''"
proof -
  have h1: "parseSemver ''1.x.3'' = None" by code_simp
  have h2: "CHR ''*'' \<notin> set (trim ''>= 1.0.0'')" by code_simp
  have h3: "comparatorMatch (trim ''>= 1.0.0'') = Some (''>='', ''1.0.0'')" by code_simp
  have h4: "parseSemver (normalizedVersion ''1.x.3'') = None" by code_simp
  have h5: "CHR ''*'' \<notin> set (trim ''^1.x'')" by code_simp
  have h6: "comparatorMatch (trim ''^1.x'') = None" by code_simp
  have h7: "take 1 (trim ''^1.x'') = ''^''" by code_simp
  have h8: "parseSemver (tl (trim ''^1.x'')) = None" by code_simp
  show ?thesis
    using h1 h2 h3 h4 h5 h6 h7 h8
      unparseable_version_never_matches [where v = "''1.x.3''" and rawSpec = "''>= 1.0.0''"
        and operator = "''>=''" and target = "''1.0.0''" and installed = "''1.x.3''"
        and rawSpec' = "''^1.x''" and installed' = "''1.2.3''"]
    by simp
qed

section \<open>Properties of affected specifiers\<close>

lemma last_index_from_absent: "c \<notin> set xs \<Longrightarrow> last_index_from c xs i found = found"
  by (induction xs arbitrary: i found) auto

lemma lastIndexOf_first_only: "s \<noteq> [] \<Longrightarrow> c \<notin> set (tl s) \<Longrightarrow> lastIndexOf c s \<le> 0"
  by (cases s) (auto simp: lastIndexOf_def last_index_from_absent)

lemma trimEnd_keeps_head: "\<not> isWhiteSpace c \<Longrightarrow> \<exists>r. trimEnd (c # cs) = c # r"
proof (cases "\<forall>x \<in> set cs. isWhiteSpace x")
  case True
  assume "\<not> isWhiteSpace c"
  then show ?thesis using True by (simp add: trimEnd_def dropWhile_append)
next
  case False
  then have "trimEnd (c # cs) = c # rev (dropWhile isWhiteSpace (rev cs))"
    by (simp add: trimEnd_def dropWhile_append)
  then show ?thesis by blast
qed

lemma trim_idem: "trim (trim s) = trim s"
proof (cases "trimStart s")
  case Nil
  then show ?thesis by (simp add: trim_def trimEnd_def) (simp add: trimStart_def)
next
  case (Cons c cs)
  then have "\<not> isWhiteSpace c"
    using hd_dropWhile [of isWhiteSpace s] by (auto simp: trimStart_def)
  then obtain r where r: "trimEnd (c # cs) = c # r" and "\<not> isWhiteSpace c"
    using trimEnd_keeps_head by blast
  then have "trimStart (trimEnd (c # cs)) = trimEnd (c # cs)"
    by (simp add: trimStart_def)
  then show ?thesis
    by (simp add: trim_def Cons) (simp add: trimEnd_def)
qed
lemma trimEnd_take: "trimEnd s = take (length s - length (takeWhile isWhiteSpace (rev s))) s"
  by (simp add: trimEnd_def dropWhile_eq_drop rev_drop)

lemma set_trim_subset: "set (trim s) \<subseteq> set s"
  using set_take_subset [of _ "trimStart s"] set_dropWhileD [of _ isWhiteSpace s]
  by (auto simp: trim_def trimEnd_take trimStart_def)

lemma tl_trim_subset: "set (tl (trim s)) \<subseteq> set (tl s)"
proof (cases s)
  case Nil
  then show ?thesis by (simp add: trim_def trimStart_def trimEnd_def)
next
  case (Cons c cs)
  show ?thesis
  proof (cases "isWhiteSpace c")
    case True
    then have "trim s = trim cs" by (simp add: Cons trim_def trimStart_def)
    then have "set (tl (trim s)) \<subseteq> set cs"
      using set_trim_subset [of cs] list.set_sel(2) [of "trim cs"] by (cases "trim cs") auto
    then show ?thesis by (simp add: Cons)
  next
    case False
    then have "trim s = take (length s - length (takeWhile isWhiteSpace (rev s))) s"
      by (simp add: Cons trim_def trimStart_def trimEnd_take)
    then obtain n where "trim s = take n (c # cs)" using Cons by blast
    then have "set (tl (trim s)) \<subseteq> set cs"
      using set_take_subset [of _ cs] by (cases n) auto
    then show ?thesis by (simp add: Cons)
  qed
qed

text \<open>
  C10, as the code has it. Stated as "the whole string is the name", the claim fails for
  a specifier with white space around it, which an accepted feed can carry: the function
  trims first, so \<^verbatim>\<open>" ext "\<close> is parsed with the name \<^verbatim>\<open>"ext"\<close>. It fails as well for
  the empty specifier, which has no \<^verbatim>\<open>@\<close> after its first character and is parsed to null.
\<close>

theorem specifier_is_trimmed_counterexample:
  "CHR ''@'' \<notin> set (tl '' ext '')
   \<and> parseAffectedSpecifier '' ext '' = Some (''ext'', ''*'')
   \<and> parseAffectedSpecifier '' ext '' \<noteq> Some ('' ext '', ''*'')
   \<and> isValidFeedPayload
        (JObject [(''version'', JString ''1.0.0''),
                  (''advisories'',
                   JArray [JObject [(''id'', JString ''TEST-001''), (''severity'', JString ''high''),
                                    (''affected'', JArray [JString '' ext ''])]])])
   \<and> CHR ''@'' \<notin> set (tl [])
   \<and> parseAffectedSpecifier [] = None"
proof -
  have a: "parseAffectedSpecifier '' ext '' = Some (''ext'', ''*'')" by code_simp
  have b: "isValidFeedPayload
        (JObject [(''version'', JString ''1.0.0''),
                  (''advisories'',
                   JArray [JObject [(''id'', JString ''TEST-001''), (''severity'', JString ''high''),
                                    (''affected'', JArray [JString '' ext ''])]])])"
    by code_simp
  have c: "parseAffectedSpecifier [] = None" by code_simp
  show ?thesis using a b c by simp
qed

text \<open>
  C10, amended. For every affected specifier with no \<^verbatim>\<open>@\<close> after its first character and
  with some character other than white space, \<^verbatim>\<open>parseAffectedSpecifier\<close> returns the
  string with the white space around it trimmed (the whole string when there is none) as
  the name, with the version spec \<^verbatim>\<open>*\<close>; such a specifier therefore matches an installed
  skill of that normalized name whatever the installed version is, the sentinel
  \<^verbatim>\<open>"unknown"\<close> and a missing version included. A specifier that is empty or all white
  space is parsed to null and matches no skill.
\<close>

theorem bare_specifier_matches_every_version:
  "(trim rawSpecifier \<noteq> [] \<and> CHR ''@'' \<notin> set (tl rawSpecifier) \<longrightarrow>
      parseAffectedSpecifier rawSpecifier = Some (trim rawSpecifier, ''*'')
    \<and> (trim rawSpecifier = rawSpecifier \<longrightarrow>
          parseAffectedSpecifier rawSpecifier = Some (rawSpecifier, ''*''))
    \<and> (\<forall>skill. normalizeSkillName (skill_name skill) = normalizeSkillName rawSpecifier
          \<longrightarrow> affectedSpecifierMatchesSkill rawSpecifier skill))
   \<and> (trim blankSpecifier = [] \<longrightarrow>
      parseAffectedSpecifier blankSpecifier = None
    \<and> (\<forall>skill. \<not> affectedSpecifierMatchesSkill blankSpecifier skill))"
proof (intro conjI impI)
  assume h: "trim rawSpecifier \<noteq> [] \<and> CHR ''@'' \<notin> set (tl rawSpecifier)"
  have t: "CHR ''@'' \<notin> set (tl (trim rawSpecifier))"
    using h tl_trim_subset [of rawSpecifier] by blast
  show p: "parseAffectedSpecifier rawSpecifier = Some (trim rawSpecifier, ''*'')"
    using h t lastIndexOf_first_only [of "trim rawSpecifier" "CHR ''@''"]
    by (simp add: parseAffectedSpecifier_def Let_def)
  have n: "normalizeSkillName (trim rawSpecifier) = normalizeSkillName rawSpecifier"
    by (simp add: normalizeSkillName_def trim_idem)
  show "\<forall>skill. normalizeSkillName (skill_name skill) = normalizeSkillName rawSpecifier
          \<longrightarrow> affectedSpecifierMatchesSkill rawSpecifier skill"
    using p n by (auto simp: affectedSpecifierMatchesSkill_def versionMatches_star)
  assume "trim rawSpecifier = rawSpecifier"
  then show "parseAffectedSpecifier rawSpecifier = Some (rawSpecifier, ''*'')"
    using p by simp
next
  assume b: "trim blankSpecifier = []"
  then show q: "parseAffectedSpecifier blankSpecifier = None"
    by (simp add: parseAffectedSpecifier_def)
  show "\<forall>skill. \<not> affectedSpecifierMatchesSkill blankSpecifier skill"
    by (simp add: affectedSpecifierMatchesSkill_def q)
qed

theorem bare_specifier_matches_every_version_witness:
  "trim ''@scope/pkg'' = ''@scope/pkg''
   \<and> CHR ''@'' \<notin> set (tl ''@scope/pkg'')
   \<and> parseAffectedSpecifier ''@scope/pkg'' = Some (''@scope/pkg'', ''*'')
   \<and> affectedSpecifierMatchesSkill ''@scope/pkg''
        \<lparr>skill_name = ''@Scope/Pkg'', skill_dirName = ''pkg'', skill_version = Some ''unknown''\<rparr>
   \<and> trim '' ext '' = ''ext''
   \<and> CHR ''@'' \<notin> set (tl '' ext '')
   \<and> parseAffectedSpecifier '' ext '' = Some (''ext'', ''*'')
   \<and> affectedSpecifierMatchesSkill '' ext ''
        \<lparr>skill_name = ''ext'', skill_dirName = ''ext'', skill_version = None\<rparr>
   \<and> trim ''  '' = []
   \<and> parseAffectedSpecifier ''  '' = None
   \<and> \<not> affectedSpecifierMatchesSkill ''  ''
        \<lparr>skill_name = ''ext'', skill_dirName = ''ext'', skill_version = Some ''1.0.0''\<rparr>"
proof -
  have t: "trim ''@scope/pkg'' = ''@scope/pkg''" by code_simp
  have n: "normalizeSkillName ''@Scope/Pkg'' = normalizeSkillName ''@scope/pkg''" by code_simp
  have u: "trim '' ext '' = ''ext''" by code_simp
  have m: "normalizeSkillName ''ext'' = normalizeSkillName '' ext ''" by code_simp
  have v: "trim ''  '' = []" by code_simp
  show ?thesis
    using t n u m v
      bare_specifier_matches_every_version [of "''@scope/pkg''" "''  ''"]
      bare_specifier_matches_every_version [of "'' ext ''" "''  ''"]
    by simp
qed
section \<open>Properties of the Feed Loader\<close>

lemma fetchText_error_is_policy: "fetchText f u = Inl e \<Longrightarrow> is_policy_error e"
  by (auto simp: fetchText_def split: sum.splits if_splits option.splits prod.splits)

lemma secureFetch_disallowed:
  "\<not> isAllowedDomain w url \<Longrightarrow> \<exists>msg. secureFetch w url = Inl (SecurityPolicyError msg)"
  by (simp add: secureFetch_def)

lemma fetchText_disallowed:
  "\<not> isAllowedDomain w url \<Longrightarrow>
   \<exists>msg. fetchText (secureFetch w) url = Inl (SecurityPolicyError msg)"
  using secureFetch_disallowed [of w url]
  by (auto simp: fetchText_def is_policy_error_def)

lemma fetchText_generic_error:
  "fetchFn url = Inl e \<Longrightarrow> \<not> is_policy_error e \<Longrightarrow> fetchText fetchFn url = Inr None"
  by (simp add: fetchText_def)

lemma remote_checksums_disallowed:
  assumes "\<not> isAllowedDomain w (remote_checksumsUrl w u ro)
           \<or> \<not> isAllowedDomain w (remote_checksumsSignatureUrl w u ro)"
  shows "\<exists>e. remote_checksums w u ro p s = Inl e \<and> is_policy_error e"
proof (cases "fetchText (secureFetch w) (remote_checksumsUrl w u ro)")
  case (Inl e)
  then show ?thesis
    using fetchText_error_is_policy [OF Inl] by (simp add: remote_checksums_def)
next
  case (Inr c)
  then have "isAllowedDomain w (remote_checksumsUrl w u ro)"
    using fetchText_disallowed [of w "remote_checksumsUrl w u ro"] by auto
  then obtain msg where
    "fetchText (secureFetch w) (remote_checksumsSignatureUrl w u ro) = Inl (SecurityPolicyError msg)"
    using assms fetchText_disallowed by blast
  then show ?thesis
    using Inr by (simp add: remote_checksums_def is_policy_error_def)
qed

lemma remote_verification_policy:
  assumes "\<not> isAllowedDomain w (remote_signatureUrl u ro) \<or>
     (opt_verifyChecksumManifest ro \<and>
        (\<not> isAllowedDomain w (remote_checksumsUrl w u ro)
         \<or> \<not> isAllowedDomain w (remote_checksumsSignatureUrl w u ro)))"
  shows "remote_verification w u ro p = Inr False
         \<or> (\<exists>e. remote_verification w u ro p = Inl e \<and> is_policy_error e)"
proof (cases "fetchText (secureFetch w) (remote_signatureUrl u ro)")
  case (Inl e)
  then show ?thesis
    using fetchText_error_is_policy [OF Inl] by (simp add: remote_verification_def)
next
  case (Inr s)
  then have a: "isAllowedDomain w (remote_signatureUrl u ro)"
    using fetchText_disallowed [of w "remote_signatureUrl u ro"] by auto
  with assms have c: "opt_verifyChecksumManifest ro" and
    d: "\<not> isAllowedDomain w (remote_checksumsUrl w u ro)
        \<or> \<not> isAllowedDomain w (remote_checksumsSignatureUrl w u ro)"
    by auto
  show ?thesis
    using Inr c remote_checksums_disallowed [OF d, of p "the s"]
    by (auto simp: remote_verification_def)
qed

lemma loadRemoteFeed_policy_null:
  assumes "\<exists>url \<in> set (remote_urls w feedUrl ro). \<not> isAllowedDomain w url"
  shows "loadRemoteFeed w feedUrl ro = Inr None"
proof (cases "isAllowedDomain w feedUrl")
  case False
  then show ?thesis
    using fetchText_disallowed [OF False]
    by (auto simp: loadRemoteFeed_def loadRemoteFeed_try_def is_policy_error_def)
next
  case True
  with assms have u: "\<not> opt_allowUnsigned ro" and
    v: "\<not> isAllowedDomain w (remote_signatureUrl feedUrl ro) \<or>
     (opt_verifyChecksumManifest ro \<and>
        (\<not> isAllowedDomain w (remote_checksumsUrl w feedUrl ro)
         \<or> \<not> isAllowedDomain w (remote_checksumsSignatureUrl w feedUrl ro)))"
    by (auto simp: remote_urls_def split: if_splits)
  show ?thesis
  proof (cases "fetchText (secureFetch w) feedUrl")
    case (Inl e)
    then show ?thesis
      using fetchText_error_is_policy [OF Inl]
      by (simp add: loadRemoteFeed_def loadRemoteFeed_try_def)
  next
    case (Inr p)
    show ?thesis
      using Inr u remote_verification_policy [OF v, of "the p"]
      by (auto simp: loadRemoteFeed_def loadRemoteFeed_try_def)
  qed
qed

lemma loadRemoteFeed_never_policy:
  "loadRemoteFeed w feedUrl ro \<noteq> Inl (SecurityPolicyError msg)"
  by (auto simp: loadRemoteFeed_def is_policy_error_def split: sum.splits if_splits)

text \<open>
  C1, as the code has it. Stated as "the policy-violation error propagates out of
  \<^verbatim>\<open>loadRemoteFeed\<close>", the claim fails: the \<^verbatim>\<open>catch\<close> of \<^verbatim>\<open>loadRemoteFeed\<close> turns the error
  into the null result. Here the feed URL is plain HTTP on a host outside the allow-list.
\<close>

theorem policy_violation_returns_null_counterexample:
  "\<not> isAllowedDomain (example_world (example_net ''feed-text'' True) no_disk)
        ''http://evil.example/feed.json''
   \<and> loadRemoteFeed (example_world (example_net ''feed-text'' True) no_disk)
        ''http://evil.example/feed.json'' default_remote_options = Inr None"
proof -
  have a: "\<not> isAllowedDomain (example_world (example_net ''feed-text'' True) no_disk)
        ''http://evil.example/feed.json''" by code_simp
  have b: "loadRemoteFeed (example_world (example_net ''feed-text'' True) no_disk)
        ''http://evil.example/feed.json'' default_remote_options = Inr None" by code_simp
  show ?thesis using a b by simp
qed

text \<open>
  C1, amended. A policy violation raised by \<^verbatim>\<open>secureFetch\<close> propagates out of
  \<^verbatim>\<open>fetchText\<close>, whose generic handling maps every other fetch failure to null, up to the
  \<^verbatim>\<open>catch\<close> of \<^verbatim>\<open>loadRemoteFeed\<close>; there it is converted into the null result, so that the
  caller falls back to the local feed. \<^verbatim>\<open>loadRemoteFeed\<close> never raises a policy violation,
  and it returns null whenever one of the URLs it is configured to fetch (feed, signature,
  checksum manifest, manifest signature) violates the policy.
\<close>

theorem policy_violation_handling:
  "(\<not> isAllowedDomain w url \<longrightarrow>
      (\<exists>msg. fetchText (secureFetch w) url = Inl (SecurityPolicyError msg)))
   \<and> (fetchFn url' = Inl e \<and> \<not> is_policy_error e \<longrightarrow> fetchText fetchFn url' = Inr None)
   \<and> (\<forall>msg. loadRemoteFeed w feedUrl ro \<noteq> Inl (SecurityPolicyError msg))
   \<and> ((\<exists>u \<in> set (remote_urls w feedUrl ro). \<not> isAllowedDomain w u) \<longrightarrow>
        loadRemoteFeed w feedUrl ro = Inr None)"
  using fetchText_disallowed [of w url] fetchText_generic_error [of fetchFn url' e]
    loadRemoteFeed_never_policy [of w feedUrl ro] loadRemoteFeed_policy_null [of w feedUrl ro]
  by blast

theorem policy_violation_handling_witness:
  "\<not> isAllowedDomain (example_world (example_net ''feed-text'' True) no_disk)
        ''http://evil.example/checksums.json''
   \<and> (\<exists>msg. fetchText (secureFetch (example_world (example_net ''feed-text'' True) no_disk))
         ''http://evil.example/checksums.json'' = Inl (SecurityPolicyError msg))
   \<and> secureFetch (example_world example_net_down no_disk)
        ''https://clawsec.prompt.security/advisories/feed.json'' = Inl FetchError
   \<and> fetchText (secureFetch (example_world example_net_down no_disk))
        ''https://clawsec.prompt.security/advisories/feed.json'' = Inr None
   \<and> ''http://evil.example/checksums.json''
        \<in> set (remote_urls (example_world (example_net ''feed-text'' True) no_disk)
                 ''https://clawsec.prompt.security/advisories/feed.json''
                 (default_remote_options\<lparr>checksumsUrl := Some ''http://evil.example/checksums.json''\<rparr>))
   \<and> loadRemoteFeed (example_world (example_net ''feed-text'' True) no_disk)
        ''https://clawsec.prompt.security/advisories/feed.json''
        (default_remote_options\<lparr>checksumsUrl := Some ''http://evil.example/checksums.json''\<rparr>)
      = Inr None"
proof -
  let ?w = "example_world (example_net ''feed-text'' True) no_disk"
  let ?d = "example_world example_net_down no_disk"
  let ?u = "''https://clawsec.prompt.security/advisories/feed.json''"
  let ?e = "''http://evil.example/checksums.json''"
  let ?ro = "default_remote_options\<lparr>checksumsUrl := Some ?e\<rparr>"
  have a: "\<not> isAllowedDomain ?w ?e" by code_simp
  have b: "secureFetch ?d ?u = Inl FetchError" by code_simp
  have c: "\<not> is_policy_error FetchError" by (simp add: is_policy_error_def)
  have d: "?e \<in> set (remote_urls ?w ?u ?ro)" by code_simp
  show ?thesis
    using a b c d
      policy_violation_handling [where w = ?w and url = ?e and fetchFn = "secureFetch ?d"
        and url' = ?u and e = FetchError and feedUrl = ?u and ro = ?ro]
    by blast
qed

lemma trim_Nil: "trim [] = []"
  by (simp add: trim_def trimStart_def trimEnd_def)

lemma nonblank_nonempty: "nonblank_string v \<Longrightarrow> nonempty_string v"
  by (auto simp: nonblank_string_def nonempty_string_def trim_Nil split: option.splits json.splits)

lemma valid_advisory_shape: "valid_advisory a \<Longrightarrow> spec_advisory_shape a"
  by (auto simp: valid_advisory_def spec_advisory_shape_def is_array_def nonblank_nonempty
      split: if_splits option.splits json.splits)

lemma isValidFeedPayload_shape: "isValidFeedPayload raw \<Longrightarrow> spec_feed_shape raw"
  by (auto simp: isValidFeedPayload_def spec_feed_shape_def isObject_def get_prop_def
      nonblank_nonempty nonblank_string_def list_all_iff valid_advisory_shape
      split: if_splits option.splits json.splits)

lemma loadLocalFeed_accepts:
  "loadLocalFeed w feedPath lo = Inr payload \<Longrightarrow>
   (\<exists>raw. readFile w feedPath = Some raw \<and> JSON_parse w raw = Some payload)
   \<and> isValidFeedPayload payload"
  by (auto simp: loadLocalFeed_def split: option.splits sum.splits if_splits)

lemma loadRemoteFeed_try_accepts:
  "loadRemoteFeed_try w feedUrl ro = Inr (Some payload) \<Longrightarrow>
   (\<exists>raw. fetchText (secureFetch w) feedUrl = Inr (Some raw) \<and> JSON_parse w raw = Some payload)
   \<and> isValidFeedPayload payload"
  unfolding loadRemoteFeed_try_def
  by (auto simp: truthy_text_def split: option.splits sum.splits if_splits bool.splits)

lemma loadRemoteFeed_accepts:
  "loadRemoteFeed w feedUrl ro = Inr (Some payload) \<Longrightarrow>
   (\<exists>raw. fetchText (secureFetch w) feedUrl = Inr (Some raw) \<and> JSON_parse w raw = Some payload)
   \<and> isValidFeedPayload payload"
  using loadRemoteFeed_try_accepts [of w feedUrl ro payload]
  by (auto simp: loadRemoteFeed_def split: sum.splits if_splits)

lemma loadLocalFeed_rejects:
  assumes "readFile w feedPath = Some raw" and "JSON_parse w raw = Some p"
    and "\<not> spec_feed_shape p"
  shows "\<exists>e. loadLocalFeed w feedPath lo = Inl e"
proof (cases "loadLocalFeed w feedPath lo")
  case (Inl e)
  then show ?thesis by blast
next
  case (Inr q)
  then show ?thesis
    using loadLocalFeed_accepts [OF Inr] assms isValidFeedPayload_shape [of q] by auto
qed

lemma loadLocalFeed_rejects_verified:
  assumes "readFile w feedPath = Some raw" and "JSON_parse w raw = Some p"
    and "\<not> spec_feed_shape p" and "local_verification w feedPath lo raw = Inr ()"
  shows "loadLocalFeed w feedPath lo = Inl (Error (''Invalid advisory feed format: '' @ feedPath))"
  using assms isValidFeedPayload_shape [of p]
  by (auto simp: loadLocalFeed_def)

lemma loadRemoteFeed_rejects:
  assumes "fetchText (secureFetch w) feedUrl = Inr (Some raw)" and "JSON_parse w raw = Some p"
    and "\<not> spec_feed_shape p"
  shows "loadRemoteFeed w feedUrl ro \<noteq> Inr (Some q)"
proof
  assume a: "loadRemoteFeed w feedUrl ro = Inr (Some q)"
  show False
    using loadRemoteFeed_accepts [OF a] assms isValidFeedPayload_shape [of q] by auto
qed

lemma loadRemoteFeed_rejects_verified:
  assumes "fetchText (secureFetch w) feedUrl = Inr (Some raw)" and "JSON_parse w raw = Some p"
    and "\<not> spec_feed_shape p" and "remote_verification w feedUrl ro raw = Inr True"
  shows "loadRemoteFeed w feedUrl ro = Inr None"
  using assms isValidFeedPayload_shape [of p]
  by (auto simp: loadRemoteFeed_def loadRemoteFeed_try_def truthy_text_def)


text \<open>
  C5. A payload that a loader returns has the shape the specification states: an object
  whose version is a non-empty string, whose advisories field is an array, every advisory
  with a non-empty string id, a non-empty string severity and an array-typed affected
  field. A payload without that shape is rejected in full, whatever the verification
  says: the local load raises (the format error, once the signatures have verified), the
  remote load never returns it (and returns null once the signatures have verified).
\<close>

theorem loaders_accept_only_valid_shape:
  "(loadLocalFeed w feedPath lo = Inr payload \<longrightarrow> spec_feed_shape payload)
   \<and> (loadRemoteFeed w feedUrl ro = Inr (Some payload') \<longrightarrow> spec_feed_shape payload')
   \<and> (readFile w feedPath = Some raw \<and> JSON_parse w raw = Some p \<and> \<not> spec_feed_shape p \<longrightarrow>
        (\<exists>e. loadLocalFeed w feedPath lo = Inl e)
        \<and> (local_verification w feedPath lo raw = Inr () \<longrightarrow>
             loadLocalFeed w feedPath lo
               = Inl (Error (''Invalid advisory feed format: '' @ feedPath))))
   \<and> (fetchText (secureFetch w) feedUrl = Inr (Some raw') \<and> JSON_parse w raw' = Some p'
        \<and> \<not> spec_feed_shape p' \<longrightarrow>
        (\<forall>q. loadRemoteFeed w feedUrl ro \<noteq> Inr (Some q))
        \<and> (remote_verification w feedUrl ro raw' = Inr True \<longrightarrow>
             loadRemoteFeed w feedUrl ro = Inr None))"
  using loadLocalFeed_accepts [of w feedPath lo payload] isValidFeedPayload_shape [of payload]
    loadRemoteFeed_accepts [of w feedUrl ro payload'] isValidFeedPayload_shape [of payload']
    loadLocalFeed_rejects [of w feedPath raw p lo]
    loadLocalFeed_rejects_verified [of w feedPath raw p lo]
    loadRemoteFeed_rejects [of w feedUrl raw' p' ro]
    loadRemoteFeed_rejects_verified [of w feedUrl raw' p' ro]
  by blast

theorem loaders_accept_only_valid_shape_witness:
  "loadLocalFeed (example_world example_net_down (example_disk ''feed-text''))
       ''/suite/advisories/feed.json'' default_local_options = Inr example_payload
   \<and> spec_feed_shape example_payload
   \<and> loadRemoteFeed (example_world (example_net ''feed-text'' True) no_disk)
       ''https://clawsec.prompt.security/advisories/feed.json'' default_remote_options
       = Inr (Some example_payload)
   \<and> readFile (example_world example_net_down (example_disk ''bad-feed-text''))
       ''/suite/advisories/feed.json'' = Some ''bad-feed-text''
   \<and> JSON_parse (example_world example_net_down (example_disk ''bad-feed-text'')) ''bad-feed-text''
       = Some example_bad_payload
   \<and> \<not> spec_feed_shape example_bad_payload
   \<and> local_verification (example_world example_net_down (example_disk ''bad-feed-text''))
       ''/suite/advisories/feed.json''
       (default_local_options\<lparr>verifyChecksumManifest := Some False\<rparr>) ''bad-feed-text'' = Inr ()
   \<and> loadLocalFeed (example_world example_net_down (example_disk ''bad-feed-text''))
       ''/suite/advisories/feed.json''
       (default_local_options\<lparr>verifyChecksumManifest := Some False\<rparr>)
       = Inl (Error ''Invalid advisory feed format: /suite/advisories/feed.json'')
   \<and> fetchText (secureFetch (example_world (example_net ''bad-feed-text'' False) no_disk))
       ''https://clawsec.prompt.security/advisories/feed.json'' = Inr (Some ''bad-feed-text'')
   \<and> remote_verification (example_world (example_net ''bad-feed-text'' False) no_disk)
       ''https://clawsec.prompt.security/advisories/feed.json'' default_remote_options
       ''bad-feed-text'' = Inr True
   \<and> loadRemoteFeed (example_world (example_net ''bad-feed-text'' False) no_disk)
       ''https://clawsec.prompt.security/advisories/feed.json'' default_remote_options = Inr None"
proof -
  let ?l = "example_world example_net_down (example_disk ''feed-text'')"
  let ?lb = "example_world example_net_down (example_disk ''bad-feed-text'')"
  let ?r = "example_world (example_net ''feed-text'' True) no_disk"
  let ?rb = "example_world (example_net ''bad-feed-text'' False) no_disk"
  let ?path = "''/suite/advisories/feed.json''"
  let ?url = "''https://clawsec.prompt.security/advisories/feed.json''"
  let ?lo = "default_local_options\<lparr>verifyChecksumManifest := Some False\<rparr>"
  have a: "loadLocalFeed ?l ?path default_local_options = Inr example_payload" by code_simp
  have b: "loadRemoteFeed ?r ?url default_remote_options = Inr (Some example_payload)"
    by code_simp
  have c: "readFile ?lb ?path = Some ''bad-feed-text''" by code_simp
  have d: "JSON_parse ?lb ''bad-feed-text'' = Some example_bad_payload" by code_simp
  have e: "\<not> spec_feed_shape example_bad_payload" by code_simp
  have f: "local_verification ?lb ?path ?lo ''bad-feed-text'' = Inr ()" by code_simp
  have g: "fetchText (secureFetch ?rb) ?url = Inr (Some ''bad-feed-text'')" by code_simp
  have h: "JSON_parse ?rb ''bad-feed-text'' = Some example_bad_payload" by code_simp
  have i: "remote_verification ?rb ?url default_remote_options ''bad-feed-text'' = Inr True"
    by code_simp
  have s1: "spec_feed_shape example_payload"
    using a loaders_accept_only_valid_shape [where w = ?l and feedPath = ?path
        and lo = default_local_options and payload = example_payload]
    by blast
  have s2: "loadLocalFeed ?lb ?path ?lo
      = Inl (Error (''Invalid advisory feed format: '' @ ?path))"
    using c d e f loaders_accept_only_valid_shape [where w = ?lb and feedPath = ?path
        and lo = ?lo and raw = "''bad-feed-text''" and p = example_bad_payload]
    by blast
  have s3: "loadRemoteFeed ?rb ?url default_remote_options = Inr None"
    using g h e i loaders_accept_only_valid_shape [where w = ?rb and feedUrl = ?url
        and ro = default_remote_options and raw' = "''bad-feed-text''"
        and p' = example_bad_payload]
    by blast
  show ?thesis
    using a b c d e f g i s1 s2 s3 by simp
qed

lemma verifyChecksums_ok:
  "verifyChecksums w m es = Inr () \<Longrightarrow>
   \<forall>(n, c) \<in> set es. n \<noteq> [] \<longrightarrow> map_of (files m) n = Some (sha256Hex w c)"
  by (induction es) (auto split: if_splits option.splits)

lemma remote_skip_urls [simp]:
  "remote_signatureUrl u (ro\<lparr>verifyChecksumManifest := x\<rparr>) = remote_signatureUrl u ro"
  "opt_publicKeyPem (ro\<lparr>verifyChecksumManifest := x\<rparr>) = opt_publicKeyPem ro"
  "opt_allowUnsigned (ro\<lparr>verifyChecksumManifest := x\<rparr>) = opt_allowUnsigned ro"
  "opt_verifyChecksumManifest (ro\<lparr>verifyChecksumManifest := Some False\<rparr>) = False"
  by (simp_all add: remote_signatureUrl_def opt_publicKeyPem_def opt_allowUnsigned_def
      opt_verifyChecksumManifest_def)

lemma remote_checksums_skipped:
  assumes "fetchText (secureFetch w) (remote_checksumsUrl w u ro) = Inr c"
    and "fetchText (secureFetch w) (remote_checksumsSignatureUrl w u ro) = Inr s"
    and "\<not> truthy_text c \<or> \<not> truthy_text s"
  shows "remote_checksums w u ro p sg = Inr True"
  using assms by (auto simp: remote_checksums_def)

lemma remote_verification_skipped:
  assumes "fetchText (secureFetch w) (remote_checksumsUrl w u ro) = Inr c"
    and "fetchText (secureFetch w) (remote_checksumsSignatureUrl w u ro) = Inr s"
    and "\<not> truthy_text c \<or> \<not> truthy_text s"
  shows "remote_verification w u ro p
         = remote_verification w u (ro\<lparr>verifyChecksumManifest := Some False\<rparr>) p"
  using remote_checksums_skipped [OF assms]
  by (auto simp: remote_verification_def split: sum.splits)

lemma loadRemoteFeed_skipped:
  assumes "fetchText (secureFetch w) (remote_checksumsUrl w u ro) = Inr c"
    and "fetchText (secureFetch w) (remote_checksumsSignatureUrl w u ro) = Inr s"
    and "\<not> truthy_text c \<or> \<not> truthy_text s"
  shows "loadRemoteFeed w u ro = loadRemoteFeed w u (ro\<lparr>verifyChecksumManifest := Some False\<rparr>)"
  using remote_verification_skipped [OF assms]
  by (simp add: loadRemoteFeed_def loadRemoteFeed_try_def cong: sum.case_cong if_cong)

lemma remote_verification_True_signature:
  assumes "remote_verification w u ro p = Inr True"
  shows "\<exists>sg. fetchText (secureFetch w) (remote_signatureUrl u ro) = Inr (Some sg)
              \<and> signature_valid w p sg (opt_publicKeyPem ro)"
  using assms
  by (auto simp: remote_verification_def truthy_text_def split: sum.splits if_splits option.splits)

lemma loadRemoteFeed_try_verified:
  assumes "loadRemoteFeed_try w u ro = Inr (Some payload)" and "\<not> opt_allowUnsigned ro"
  shows "\<exists>raw. fetchText (secureFetch w) u = Inr (Some raw)
           \<and> remote_verification w u ro raw = Inr True"
  using assms unfolding loadRemoteFeed_try_def
  by (auto simp: truthy_text_def split: sum.splits if_splits option.splits bool.splits)

lemma loadRemoteFeed_verified:
  assumes "loadRemoteFeed w u ro = Inr (Some payload)" and "\<not> opt_allowUnsigned ro"
  shows "\<exists>raw. fetchText (secureFetch w) u = Inr (Some raw)
           \<and> remote_verification w u ro raw = Inr True"
  using assms loadRemoteFeed_try_verified [of w u ro payload]
  by (auto simp: loadRemoteFeed_def split: sum.splits if_splits)

lemma remote_checksums_True_both:
  assumes "remote_checksums w u ro p sg = Inr True"
    and "fetchText (secureFetch w) (remote_checksumsUrl w u ro) = Inr (Some c)"
    and "fetchText (secureFetch w) (remote_checksumsSignatureUrl w u ro) = Inr (Some s)"
    and "c \<noteq> []" and "s \<noteq> []"
  shows "signature_valid w c s (opt_checksumsPublicKeyPem ro)
     \<and> (\<exists>m. parseChecksumsManifest w c = Inr m
           \<and> verifyChecksums w m (remote_expectedEntries w u ro p sg) = Inr ())"
  using assms
  by (auto simp: remote_checksums_def truthy_text_def split: sum.splits if_splits)

lemma remote_verification_True_checksums:
  assumes "remote_verification w u ro p = Inr True" and "opt_verifyChecksumManifest ro"
    and "fetchText (secureFetch w) (remote_signatureUrl u ro) = Inr (Some sg)"
  shows "remote_checksums w u ro p sg = Inr True"
  using assms
  by (auto simp: remote_verification_def truthy_text_def split: sum.splits if_splits)

lemma local_verification_ok:
  assumes "local_verification w fp lo raw = Inr ()" and "opt_verifyChecksumManifest lo"
  shows "\<exists>sg. readFile w (local_signaturePath fp lo) = Some sg
          \<and> signature_valid w raw sg (opt_publicKeyPem lo)
          \<and> local_checksums w fp lo raw sg = Inr ()"
  using assms
  by (auto simp: local_verification_def Let_def split: option.splits if_splits)

lemma local_checksums_ok:
  assumes "local_checksums w fp lo raw sg = Inr ()"
  shows "\<exists>c s m. readFile w (local_checksumsPath w fp lo) = Some c
          \<and> readFile w (local_checksumsSignaturePath w fp lo) = Some s
          \<and> signature_valid w c s (opt_checksumsPublicKeyPem lo)
          \<and> parseChecksumsManifest w c = Inr m
          \<and> verifyChecksums w m (local_expectedEntries w fp lo raw sg) = Inr ()"
  using assms
  by (auto simp: local_checksums_def Let_def split: option.splits if_splits sum.splits)

lemma loadLocalFeed_verified:
  assumes "loadLocalFeed w fp lo = Inr payload" and "\<not> opt_allowUnsigned lo"
  shows "\<exists>raw. readFile w fp = Some raw \<and> local_verification w fp lo raw = Inr ()"
  using assms
  by (auto simp: loadLocalFeed_def split: option.splits if_splits sum.splits)


lemma remote_both_fetched:
  assumes "\<not> opt_allowUnsigned ro" and "opt_verifyChecksumManifest ro"
    and "fetchText (secureFetch w) (remote_checksumsUrl w u ro) = Inr (Some c)" and "c \<noteq> []"
    and "fetchText (secureFetch w) (remote_checksumsSignatureUrl w u ro) = Inr (Some s)"
    and "s \<noteq> []"
    and "loadRemoteFeed w u ro = Inr (Some payload)"
  shows "signature_valid w c s (opt_checksumsPublicKeyPem ro)
     \<and> (\<exists>raw sg m. fetchText (secureFetch w) u = Inr (Some raw)
           \<and> fetchText (secureFetch w) (remote_signatureUrl u ro) = Inr (Some sg)
           \<and> parseChecksumsManifest w c = Inr m
           \<and> (\<forall>(n, content) \<in> set (remote_expectedEntries w u ro raw sg).
                 n \<noteq> [] \<longrightarrow> map_of (files m) n = Some (sha256Hex w content)))"
proof -
  obtain raw where r: "fetchText (secureFetch w) u = Inr (Some raw)"
    and v: "remote_verification w u ro raw = Inr True"
    using loadRemoteFeed_verified [OF assms(7) assms(1)] by blast
  obtain sg where g: "fetchText (secureFetch w) (remote_signatureUrl u ro) = Inr (Some sg)"
    using remote_verification_True_signature [OF v] by blast
  have k: "remote_checksums w u ro raw sg = Inr True"
    using remote_verification_True_checksums [OF v assms(2) g] .
  obtain m where sv: "signature_valid w c s (opt_checksumsPublicKeyPem ro)"
    and pm: "parseChecksumsManifest w c = Inr m"
    and vc: "verifyChecksums w m (remote_expectedEntries w u ro raw sg) = Inr ()"
    using remote_checksums_True_both [OF k assms(3) assms(5) assms(4) assms(6)] by blast
  show ?thesis
    using sv r g pm verifyChecksums_ok [OF vc] by blast
qed

lemma remote_signature_required:
  assumes "\<not> opt_allowUnsigned ro" and "loadRemoteFeed w u ro = Inr (Some payload)"
  shows "\<exists>raw sg. fetchText (secureFetch w) u = Inr (Some raw)
           \<and> fetchText (secureFetch w) (remote_signatureUrl u ro) = Inr (Some sg)
           \<and> signature_valid w raw sg (opt_publicKeyPem ro)"
  using loadRemoteFeed_verified [OF assms(2) assms(1)] remote_verification_True_signature
  by blast

lemma local_checksums_mandatory:
  assumes "\<not> opt_allowUnsigned lo" and "opt_verifyChecksumManifest lo"
    and "loadLocalFeed w fp lo = Inr payload"
  shows "\<exists>raw sg c s m. readFile w fp = Some raw
           \<and> readFile w (local_signaturePath fp lo) = Some sg
           \<and> readFile w (local_checksumsPath w fp lo) = Some c
           \<and> readFile w (local_checksumsSignaturePath w fp lo) = Some s
           \<and> signature_valid w c s (opt_checksumsPublicKeyPem lo)
           \<and> parseChecksumsManifest w c = Inr m
           \<and> (\<forall>(n, content) \<in> set (local_expectedEntries w fp lo raw sg).
                 n \<noteq> [] \<longrightarrow> map_of (files m) n = Some (sha256Hex w content))"
proof -
  obtain raw where r: "readFile w fp = Some raw"
    and v: "local_verification w fp lo raw = Inr ()"
    using loadLocalFeed_verified [OF assms(3) assms(1)] by blast
  obtain sg where g: "readFile w (local_signaturePath fp lo) = Some sg"
    and k: "local_checksums w fp lo raw sg = Inr ()"
    using local_verification_ok [OF v assms(2)] by blast
  obtain c s m where "readFile w (local_checksumsPath w fp lo) = Some c"
    "readFile w (local_checksumsSignaturePath w fp lo) = Some s"
    "signature_valid w c s (opt_checksumsPublicKeyPem lo)"
    "parseChecksumsManifest w c = Inr m"
    and vc: "verifyChecksums w m (local_expectedEntries w fp lo raw sg) = Inr ()"
    using local_checksums_ok [OF k] by blast
  then show ?thesis
    using r g verifyChecksums_ok [OF vc] by blast
qed

lemma local_checksums_missing_raises:
  assumes "\<not> opt_allowUnsigned lo" and "opt_verifyChecksumManifest lo"
    and "readFile w (local_checksumsPath w fp lo) = None
         \<or> readFile w (local_checksumsSignaturePath w fp lo) = None
         \<or> (\<exists>c s. readFile w (local_checksumsPath w fp lo) = Some c
                \<and> readFile w (local_checksumsSignaturePath w fp lo) = Some s
                \<and> \<not> signature_valid w c s (opt_checksumsPublicKeyPem lo))"
  shows "\<exists>e. loadLocalFeed w fp lo = Inl e"
proof (cases "loadLocalFeed w fp lo")
  case (Inl e)
  then show ?thesis by blast
next
  case (Inr payload)
  then show ?thesis
    using local_checksums_mandatory [OF assms(1) assms(2) Inr] assms(3) by auto
qed

text \<open>
  C2. With signature verification enabled, a remote load whose checksum manifest or
  manifest signature cannot be fetched (the fetch gives null or an empty text) behaves as
  the load with checksum verification switched off, the feed signature still being
  required; if both are fetched, a remote load returns a payload only when the manifest
  signature verifies and every required digest matches. A local load with checksum
  verification enabled returns a payload only when the manifest and its signature file
  both exist, the signature verifies and every required digest matches; when one of the
  two files is missing or the signature does not verify, it raises an error.
\<close>

theorem checksum_verification_remote_best_effort_local_mandatory:
  "(\<not> opt_allowUnsigned ro
     \<and> fetchText (secureFetch w) (remote_checksumsUrl w u ro) = Inr c
     \<and> fetchText (secureFetch w) (remote_checksumsSignatureUrl w u ro) = Inr s
     \<and> (\<not> truthy_text c \<or> \<not> truthy_text s)
     \<longrightarrow> loadRemoteFeed w u ro = loadRemoteFeed w u (ro\<lparr>verifyChecksumManifest := Some False\<rparr>))
   \<and> (\<not> opt_allowUnsigned ro \<and> loadRemoteFeed w u ro = Inr (Some payload)
     \<longrightarrow> (\<exists>raw sg. fetchText (secureFetch w) u = Inr (Some raw)
           \<and> fetchText (secureFetch w) (remote_signatureUrl u ro) = Inr (Some sg)
           \<and> signature_valid w raw sg (opt_publicKeyPem ro)))
   \<and> (\<not> opt_allowUnsigned ro \<and> opt_verifyChecksumManifest ro
     \<and> fetchText (secureFetch w) (remote_checksumsUrl w u ro) = Inr (Some c') \<and> c' \<noteq> []
     \<and> fetchText (secureFetch w) (remote_checksumsSignatureUrl w u ro) = Inr (Some s')
     \<and> s' \<noteq> []
     \<and> loadRemoteFeed w u ro = Inr (Some payload)
     \<longrightarrow> signature_valid w c' s' (opt_checksumsPublicKeyPem ro)
         \<and> (\<exists>raw sg m. fetchText (secureFetch w) u = Inr (Some raw)
               \<and> fetchText (secureFetch w) (remote_signatureUrl u ro) = Inr (Some sg)
               \<and> parseChecksumsManifest w c' = Inr m
               \<and> (\<forall>(n, content) \<in> set (remote_expectedEntries w u ro raw sg).
                     n \<noteq> [] \<longrightarrow> map_of (files m) n = Some (sha256Hex w content))))
   \<and> (\<not> opt_allowUnsigned lo \<and> opt_verifyChecksumManifest lo
     \<and> loadLocalFeed w fp lo = Inr payload'
     \<longrightarrow> (\<exists>raw sg c s m. readFile w fp = Some raw
           \<and> readFile w (local_signaturePath fp lo) = Some sg
           \<and> readFile w (local_checksumsPath w fp lo) = Some c
           \<and> readFile w (local_checksumsSignaturePath w fp lo) = Some s
           \<and> signature_valid w c s (opt_checksumsPublicKeyPem lo)
           \<and> parseChecksumsManifest w c = Inr m
           \<and> (\<forall>(n, content) \<in> set (local_expectedEntries w fp lo raw sg).
                 n \<noteq> [] \<longrightarrow> map_of (files m) n = Some (sha256Hex w content))))
   \<and> (\<not> opt_allowUnsigned lo \<and> opt_verifyChecksumManifest lo
     \<and> (readFile w (local_checksumsPath w fp lo) = None
         \<or> readFile w (local_checksumsSignaturePath w fp lo) = None
         \<or> (\<exists>c s. readFile w (local_checksumsPath w fp lo) = Some c
                \<and> readFile w (local_checksumsSignaturePath w fp lo) = Some s
                \<and> \<not> signature_valid w c s (opt_checksumsPublicKeyPem lo)))
     \<longrightarrow> (\<exists>e. loadLocalFeed w fp lo = Inl e))"
proof (intro conjI impI)
  assume "\<not> opt_allowUnsigned ro
     \<and> fetchText (secureFetch w) (remote_checksumsUrl w u ro) = Inr c
     \<and> fetchText (secureFetch w) (remote_checksumsSignatureUrl w u ro) = Inr s
     \<and> (\<not> truthy_text c \<or> \<not> truthy_text s)"
  then show "loadRemoteFeed w u ro = loadRemoteFeed w u (ro\<lparr>verifyChecksumManifest := Some False\<rparr>)"
    using loadRemoteFeed_skipped [of w u ro c s] by blast
next
  assume "\<not> opt_allowUnsigned ro \<and> loadRemoteFeed w u ro = Inr (Some payload)"
  then show "\<exists>raw sg. fetchText (secureFetch w) u = Inr (Some raw)
           \<and> fetchText (secureFetch w) (remote_signatureUrl u ro) = Inr (Some sg)
           \<and> signature_valid w raw sg (opt_publicKeyPem ro)"
    using remote_signature_required [of ro w u payload] by blast
next
  assume a: "\<not> opt_allowUnsigned ro \<and> opt_verifyChecksumManifest ro
     \<and> fetchText (secureFetch w) (remote_checksumsUrl w u ro) = Inr (Some c') \<and> c' \<noteq> []
     \<and> fetchText (secureFetch w) (remote_checksumsSignatureUrl w u ro) = Inr (Some s')
     \<and> s' \<noteq> []
     \<and> loadRemoteFeed w u ro = Inr (Some payload)"
  then show "signature_valid w c' s' (opt_checksumsPublicKeyPem ro)"
    using remote_both_fetched [of ro w u c' s' payload] by blast
  from a show "\<exists>raw sg m. fetchText (secureFetch w) u = Inr (Some raw)
               \<and> fetchText (secureFetch w) (remote_signatureUrl u ro) = Inr (Some sg)
               \<and> parseChecksumsManifest w c' = Inr m
               \<and> (\<forall>(n, content) \<in> set (remote_expectedEntries w u ro raw sg).
                     n \<noteq> [] \<longrightarrow> map_of (files m) n = Some (sha256Hex w content))"
    using remote_both_fetched [of ro w u c' s' payload] by blast
next
  assume "\<not> opt_allowUnsigned lo \<and> opt_verifyChecksumManifest lo
     \<and> loadLocalFeed w fp lo = Inr payload'"
  then show "\<exists>raw sg c s m. readFile w fp = Some raw
           \<and> readFile w (local_signaturePath fp lo) = Some sg
           \<and> readFile w (local_checksumsPath w fp lo) = Some c
           \<and> readFile w (local_checksumsSignaturePath w fp lo) = Some s
           \<and> signature_valid w c s (opt_checksumsPublicKeyPem lo)
           \<and> parseChecksumsManifest w c = Inr m
           \<and> (\<forall>(n, content) \<in> set (local_expectedEntries w fp lo raw sg).
                 n \<noteq> [] \<longrightarrow> map_of (files m) n = Some (sha256Hex w content))"
    using local_checksums_mandatory [of lo w fp payload'] by blast
next
  assume "\<not> opt_allowUnsigned lo \<and> opt_verifyChecksumManifest lo
     \<and> (readFile w (local_checksumsPath w fp lo) = None
         \<or> readFile w (local_checksumsSignaturePath w fp lo) = None
         \<or> (\<exists>c s. readFile w (local_checksumsPath w fp lo) = Some c
                \<and> readFile w (local_checksumsSignaturePath w fp lo) = Some s
                \<and> \<not> signature_valid w c s (opt_checksumsPublicKeyPem lo)))"
  then show "\<exists>e. loadLocalFeed w fp lo = Inl e"
    using local_checksums_missing_raises [of lo w fp] by blast
qed

theorem checksum_verification_remote_best_effort_local_mandatory_witness:
  "\<not> opt_allowUnsigned default_remote_options
   \<and> fetchText (secureFetch remote_without_checksums)
        (remote_checksumsUrl remote_without_checksums example_feed_url default_remote_options)
      = Inr None
   \<and> loadRemoteFeed remote_without_checksums example_feed_url default_remote_options
      = loadRemoteFeed remote_without_checksums example_feed_url
          (default_remote_options\<lparr>verifyChecksumManifest := Some False\<rparr>)
   \<and> loadRemoteFeed remote_without_checksums example_feed_url default_remote_options
      = Inr (Some example_payload)
   \<and> opt_verifyChecksumManifest default_remote_options
   \<and> fetchText (secureFetch remote_with_checksums)
        (remote_checksumsUrl remote_with_checksums example_feed_url default_remote_options)
      = Inr (Some ''manifest-text'')
   \<and> fetchText (secureFetch remote_with_checksums)
        (remote_checksumsSignatureUrl remote_with_checksums example_feed_url default_remote_options)
      = Inr (Some ''signed:manifest-text'')
   \<and> loadRemoteFeed remote_with_checksums example_feed_url default_remote_options
      = Inr (Some example_payload)
   \<and> signature_valid remote_with_checksums ''manifest-text'' ''signed:manifest-text''
        (opt_checksumsPublicKeyPem default_remote_options)
   \<and> (\<exists>raw sg. fetchText (secureFetch remote_with_checksums) example_feed_url = Inr (Some raw)
         \<and> fetchText (secureFetch remote_with_checksums)
              (remote_signatureUrl example_feed_url default_remote_options) = Inr (Some sg)
         \<and> signature_valid remote_with_checksums raw sg (opt_publicKeyPem default_remote_options))
   \<and> \<not> opt_allowUnsigned default_local_options
   \<and> opt_verifyChecksumManifest default_local_options
   \<and> loadLocalFeed local_with_checksums example_feed_path default_local_options
      = Inr example_payload
   \<and> (\<exists>c s. readFile local_with_checksums
               (local_checksumsPath local_with_checksums example_feed_path default_local_options)
             = Some c
         \<and> readFile local_with_checksums
               (local_checksumsSignaturePath local_with_checksums example_feed_path
                  default_local_options) = Some s
         \<and> signature_valid local_with_checksums c s
               (opt_checksumsPublicKeyPem default_local_options))
   \<and> readFile local_without_checksums
        (local_checksumsPath local_without_checksums example_feed_path default_local_options)
      = None
   \<and> (\<exists>e. loadLocalFeed local_without_checksums example_feed_path default_local_options = Inl e)"
proof -
  let ?ro = default_remote_options
  let ?lo = default_local_options
  let ?u = example_feed_url
  let ?p = example_feed_path
  have a: "\<not> opt_allowUnsigned ?ro" by code_simp
  have b: "fetchText (secureFetch remote_without_checksums)
        (remote_checksumsUrl remote_without_checksums ?u ?ro) = Inr None" by code_simp
  have c: "fetchText (secureFetch remote_without_checksums)
        (remote_checksumsSignatureUrl remote_without_checksums ?u ?ro) = Inr None" by code_simp
  have d: "\<not> truthy_text None" by (simp add: truthy_text_def)
  have e: "loadRemoteFeed remote_without_checksums ?u ?ro = Inr (Some example_payload)"
    by code_simp
  have f: "opt_verifyChecksumManifest ?ro" by code_simp
  have g: "fetchText (secureFetch remote_with_checksums)
        (remote_checksumsUrl remote_with_checksums ?u ?ro) = Inr (Some ''manifest-text'')"
    by code_simp
  have h: "fetchText (secureFetch remote_with_checksums)
        (remote_checksumsSignatureUrl remote_with_checksums ?u ?ro)
      = Inr (Some ''signed:manifest-text'')" by code_simp
  have i: "loadRemoteFeed remote_with_checksums ?u ?ro = Inr (Some example_payload)"
    by code_simp
  have j: "\<not> opt_allowUnsigned ?lo" by code_simp
  have k: "opt_verifyChecksumManifest ?lo" by code_simp
  have l: "loadLocalFeed local_with_checksums ?p ?lo = Inr example_payload" by code_simp
  have m: "readFile local_without_checksums
        (local_checksumsPath local_without_checksums ?p ?lo) = None" by code_simp
  have n: "''manifest-text'' \<noteq> [] \<and> ''signed:manifest-text'' \<noteq> []" by simp
  note t1 = checksum_verification_remote_best_effort_local_mandatory
      [where w = remote_without_checksums and u = ?u and ro = ?ro and c = None and s = None]
  note t2 = checksum_verification_remote_best_effort_local_mandatory
      [where w = remote_with_checksums and u = ?u and ro = ?ro and payload = example_payload
        and c' = "''manifest-text''" and s' = "''signed:manifest-text''"]
  note t3 = checksum_verification_remote_best_effort_local_mandatory
      [where w = local_with_checksums and fp = ?p and lo = ?lo and payload' = example_payload]
  note t4 = checksum_verification_remote_best_effort_local_mandatory
      [where w = local_without_checksums and fp = ?p and lo = ?lo]
  have r1: "loadRemoteFeed remote_without_checksums ?u ?ro
      = loadRemoteFeed remote_without_checksums ?u (?ro\<lparr>verifyChecksumManifest := Some False\<rparr>)"
    using a b c d t1 by blast
  have r2: "signature_valid remote_with_checksums ''manifest-text'' ''signed:manifest-text''
        (opt_checksumsPublicKeyPem ?ro)"
    using a f g h i n t2 by blast
  have r3: "\<exists>raw sg. fetchText (secureFetch remote_with_checksums) ?u = Inr (Some raw)
         \<and> fetchText (secureFetch remote_with_checksums) (remote_signatureUrl ?u ?ro) = Inr (Some sg)
         \<and> signature_valid remote_with_checksums raw sg (opt_publicKeyPem ?ro)"
    using a i t2 by blast
  have r4: "\<exists>c s. readFile local_with_checksums
               (local_checksumsPath local_with_checksums ?p ?lo) = Some c
         \<and> readFile local_with_checksums
               (local_checksumsSignaturePath local_with_checksums ?p ?lo) = Some s
         \<and> signature_valid local_with_checksums c s (opt_checksumsPublicKeyPem ?lo)"
    using j k l t3 by blast
  have r5: "\<exists>e. loadLocalFeed local_without_checksums ?p ?lo = Inl e"
    using j k m t4 by blast
  show ?thesis
    using a b e f g h i j k l m r1 r2 r3 r4 r5 by blast
qed

section \<open>Properties of the State Store and the Hook Entry Point\<close>

lemma set_uniqueStrings [simp]: "set (uniqueStrings xs) = set xs"
  by (simp add: uniqueStrings_def)

lemma nonblank_strings_JString: "nonblank_strings (map JString xs) = filter (\<lambda>x. trim x \<noteq> []) xs"
  by (induction xs) (auto simp: nonblank_strings_def)

lemma set_nonblank_strings: "set (nonblank_strings xs) = {s. JString s \<in> set xs \<and> trim s \<noteq> []}"
  by (induction xs) (auto simp: nonblank_strings_def split: json.splits)

lemma state_to_json_props:
  "isObject (state_to_json s)"
  "get_prop (state_to_json s) ''known_advisories'' = Some (JArray (map JString (known_advisories s)))"
  "get_prop (state_to_json s) ''notified_matches''
     = Some (JObject (map (\<lambda>(k, v). (k, JString v)) (notified_matches s)))"
  by (simp_all add: state_to_json_def isObject_def get_prop_def)

lemma known_normalize:
  "known_advisories (normalizeState (state_to_json s))
     = uniqueStrings (filter (\<lambda>x. trim x \<noteq> []) (known_advisories s))"
  by (simp add: normalizeState_def state_to_json_props nonblank_strings_JString)

lemma known_normalize_nonblank: "x \<in> set (known_advisories (normalizeState raw)) \<Longrightarrow> trim x \<noteq> []"
  by (auto simp: normalizeState_def DEFAULT_STATE_def set_nonblank_strings
      split: if_splits option.splits json.splits)

lemma known_loadState_nonblank: "x \<in> set (known_advisories (loadState disk)) \<Longrightarrow> trim x \<noteq> []"
  by (auto simp: loadState_def DEFAULT_STATE_def known_normalize_nonblank split: option.splits)

lemma stored_after_persist:
  "stored_advisories (Some (state_to_json (normalizeState (state_to_json s))))
     = {x \<in> set (known_advisories s). trim x \<noteq> []}"
  by (auto simp: stored_advisories_def loadState_def known_normalize)

lemma persistState_file:
  "fst (persistState fs path s disk) = disk
   \<or> fst (persistState fs path s disk) = Some (state_to_json (normalizeState (state_to_json s)))"
  by (cases fs) (simp_all add: persistState_def Let_def)

lemma persistState_file_ok:
  "fs \<noteq> WriteFails \<Longrightarrow>
   fst (persistState fs path s disk) = Some (state_to_json (normalizeState (state_to_json s)))"
  by (cases fs) (simp_all add: persistState_def Let_def)

lemma finish_with_persist_fields:
  "run_persisted (finish_with_persist env cfg disk msgs ws sh s un) = [s]"
  "run_messages (finish_with_persist env cfg disk msgs ws sh s un) = msgs"
  "run_unseen (finish_with_persist env cfg disk msgs ws sh s un) = un"
  "run_state (finish_with_persist env cfg disk msgs ws sh s un) = Some s"
  "run_file (finish_with_persist env cfg disk msgs ws sh s un)
     = fst (persistState (persist_outcome env) (cfg_stateFile cfg) s disk)"
  by (simp_all add: finish_with_persist_def split: prod.splits)

lemma mark_unseen_known [simp]:
  "known_advisories (s\<lparr>notified_matches := t\<rparr>) = known_advisories s"
  by simp


lemma scan_feed_persisted:
  "\<exists>s. run_persisted (scan_feed w env cfg event disk ws sh s0 feed) = [s]
     \<and> run_file (scan_feed w env cfg event disk ws sh s0 feed)
         = fst (persistState (persist_outcome env) (cfg_stateFile cfg) s disk)
     \<and> known_advisories s = uniqueStrings (known_advisories s0 @ feed_advisory_ids feed)"
  by (auto simp: scan_feed_def Let_def finish_with_persist_fields record_feed_def split: prod.splits)

lemma handler_not_due:
  "\<not> scan_due env cfg event disk \<Longrightarrow>
   run_file (handler w env cfg event disk sh) = disk \<and> run_persisted (handler w env cfg event disk sh) = []"
  by (auto simp: handler_def scan_due_def Let_def)

lemma handler_load_failed:
  assumes "scan_due env cfg event disk" and "loadFeed w cfg = Inl e"
  shows "handler w env cfg event disk sh =
     \<lparr>run_file = disk, run_messages = ev_messages event,
      run_warnings = (if cfg_allowUnsigned cfg \<and> \<not> sh then [unsigned_warning] else []) @
        [''[clawsec-advisory-guardian] failed to load advisory feed: '' @ error_text e],
      run_persisted = [], run_state = Some (loadState disk), run_unseen = [],
      run_outcome = Inr (), run_warningShown = (sh \<or> cfg_allowUnsigned cfg)\<rparr>"
  using assms by (auto simp: handler_def scan_due_def Let_def)

lemma handler_loaded:
  assumes "scan_due env cfg event disk" and "loadFeed w cfg = Inr payload"
  shows "handler w env cfg event disk sh =
     scan_feed w env cfg event disk
       (if cfg_allowUnsigned cfg \<and> \<not> sh then [unsigned_warning] else [])
       (sh \<or> cfg_allowUnsigned cfg) (loadState disk) (feed_of_json payload)"
  using assms by (auto simp: handler_def scan_due_def Let_def)

lemma handler_known_grows:
  "stored_advisories disk \<subseteq> stored_advisories (run_file (handler w env cfg event disk sh))"
proof (cases "scan_due env cfg event disk")
  case False
  then show ?thesis using handler_not_due [OF False] by simp
next
  case True
  show ?thesis
  proof (cases "loadFeed w cfg")
    case (Inl e)
    then show ?thesis using handler_load_failed [OF True Inl] by simp
  next
    case (Inr payload)
    let ?ws = "if cfg_allowUnsigned cfg \<and> \<not> sh then [unsigned_warning] else []"
    let ?sh = "sh \<or> cfg_allowUnsigned cfg"
    obtain s where f: "run_file (scan_feed w env cfg event disk ?ws ?sh (loadState disk) (feed_of_json payload))
         = fst (persistState (persist_outcome env) (cfg_stateFile cfg) s disk)"
      and k: "known_advisories s
         = uniqueStrings (known_advisories (loadState disk) @ feed_advisory_ids (feed_of_json payload))"
      using scan_feed_persisted [of w env cfg event disk ?ws ?sh "loadState disk" "feed_of_json payload"]
      by blast
    have "stored_advisories disk \<subseteq> {x \<in> set (known_advisories s). trim x \<noteq> []}"
      using k known_loadState_nonblank [of _ disk] by (auto simp: stored_advisories_def)
    then have "stored_advisories disk
        \<subseteq> stored_advisories (fst (persistState (persist_outcome env) (cfg_stateFile cfg) s disk))"
      using persistState_file [of "persist_outcome env" "cfg_stateFile cfg" s disk]
      by (auto simp: stored_after_persist)
    then show ?thesis using handler_loaded [OF True Inr, of sh] f by simp
  qed
qed

lemma run_hooks_known_grows:
  "stored_advisories disk \<subseteq> stored_advisories (run_hooks cfg runs disk sh)"
proof (induction runs arbitrary: disk sh)
  case Nil
  then show ?case by simp
next
  case (Cons a runs)
  obtain w env event where a: "a = (w, env, event)" by (cases a) auto
  show ?case
    using handler_known_grows [of disk w env cfg event sh]
      Cons.IH [of "run_file (handler w env cfg event disk sh)"
                  "run_warningShown (handler w env cfg event disk sh)"]
    by (auto simp: a Let_def)
qed


subsection \<open>The table of notified matches\<close>

lemma map_of_obj_set: "map_of (obj_set t k v) = (map_of t)(k \<mapsto> v)"
  by (induction t k v rule: obj_set.induct) auto


lemma recorded_notified: "recorded t k \<Longrightarrow> notified t k"
  by (auto simp: recorded_def notified_def trim_Nil)

lemma recorded_obj_set: "trim v \<noteq> [] \<Longrightarrow> recorded t k \<Longrightarrow> recorded (obj_set t k' v) k"
  by (auto simp: recorded_def map_of_obj_set)

lemma recorded_obj_set_same: "trim v \<noteq> [] \<Longrightarrow> recorded (obj_set t k v) k"
  by (auto simp: recorded_def map_of_obj_set)

lemma normalize_notified_keeps:
  "recorded acc k \<Longrightarrow> recorded (normalize_notified es acc) k"
  by (induction es acc rule: normalize_notified.induct)
     (auto simp: recorded_obj_set split: json.splits)

lemma normalize_notified_adds:
  "(k, JString v) \<in> set es \<Longrightarrow> trim v \<noteq> [] \<Longrightarrow> recorded (normalize_notified es acc) k"
  by (induction es acc rule: normalize_notified.induct)
     (auto simp: recorded_obj_set_same normalize_notified_keeps split: json.splits)

lemma isObject_JObject: "isObject (JObject es)" and object_entries_JObject: "object_entries (JObject es) = es"
  by (simp_all add: isObject_def object_entries_def)

lemma recorded_normalizeState:
  assumes "recorded (notified_matches s) k"
  shows "recorded (notified_matches (normalizeState (state_to_json s))) k"
proof -
  obtain v where v: "map_of (notified_matches s) k = Some v" and t: "trim v \<noteq> []"
    using assms by (auto simp: recorded_def)
  have "(k, v) \<in> set (notified_matches s)" using v by (rule map_of_SomeD)
  then have "(k, JString v) \<in> set (map (\<lambda>(k, v). (k, JString v)) (notified_matches s))"
    by force
  then show ?thesis
    using t by (simp add: normalizeState_def state_to_json_props isObject_JObject
        object_entries_JObject normalize_notified_adds)
qed

lemma recorded_after_persist:
  "recorded (notified_matches s) k \<Longrightarrow>
   recorded (notified_matches (loadState (Some (state_to_json (normalizeState (state_to_json s)))))) k"
  by (simp add: loadState_def recorded_normalizeState)

lemma mark_unseen_keeps:
  "trim now \<noteq> [] \<Longrightarrow> recorded t k \<Longrightarrow> recorded (fst (mark_unseen now ms t un)) k"
  by (induction now ms t un rule: mark_unseen.induct) (auto simp: Let_def recorded_obj_set)


lemma all_nonblank_obj_set: "trim v \<noteq> [] \<Longrightarrow> all_nonblank t \<Longrightarrow> all_nonblank (obj_set t k v)"
  by (induction t k v rule: obj_set.induct) (auto simp: all_nonblank_def)

lemma all_nonblank_normalize_notified:
  "all_nonblank acc \<Longrightarrow> all_nonblank (normalize_notified es acc)"
  by (induction es acc rule: normalize_notified.induct)
     (auto simp: all_nonblank_obj_set split: json.splits)

lemma all_nonblank_Nil: "all_nonblank []"
  by (simp add: all_nonblank_def)

lemma all_nonblank_loadState: "all_nonblank (notified_matches (loadState disk))"
  by (simp add: loadState_def normalizeState_def DEFAULT_STATE_def all_nonblank_normalize_notified
      all_nonblank_Nil split: option.splits)

lemma notified_recorded: "all_nonblank t \<Longrightarrow> notified t k \<Longrightarrow> recorded t k"
  by (auto simp: all_nonblank_def notified_def recorded_def split: option.splits dest!: map_of_SomeD)

lemma mark_unseen_records:
  "trim now \<noteq> [] \<Longrightarrow> all_nonblank t \<Longrightarrow> m \<in> set ms \<Longrightarrow>
   recorded (fst (mark_unseen now ms t un)) (matchKey m)"
proof (induction now ms t un rule: mark_unseen.induct)
  case (1 now t un)
  then show ?case by simp
next
  case (2 now m' ms t un)
  show ?case
  proof (cases "notified t (matchKey m')")
    case True
    show ?thesis
    proof (cases "m = m'")
      case True
      then show ?thesis
        using \<open>notified t (matchKey m')\<close> 2 notified_recorded [of t "matchKey m'"]
          mark_unseen_keeps [of now t "matchKey m'" ms un]
        by (simp add: Let_def)
    next
      case False
      then show ?thesis using True 2 by (simp add: Let_def)
    qed
  next
    case False
    show ?thesis
    proof (cases "m = m'")
      case True
      then show ?thesis
        using False 2
          mark_unseen_keeps [of now "obj_set t (matchKey m') now" "matchKey m'" ms "un @ [m']"]
        by (simp add: Let_def recorded_obj_set_same)
    next
      case neq: False
      then show ?thesis using False 2 by (simp add: Let_def all_nonblank_obj_set)
    qed
  qed
qed

lemma mark_unseen_all_seen:
  "\<forall>m \<in> set ms. notified t (matchKey m) \<Longrightarrow> mark_unseen now ms t un = (t, un)"
  by (induction now ms t un rule: mark_unseen.induct) (auto simp: Let_def)

subsection \<open>One scan and the next\<close>

lemma record_feed_notified [simp]:
  "notified_matches (record_feed now feed s) = notified_matches s"
  by (simp add: record_feed_def)

lemma scan_feed_recorded:
  assumes "trim (nowIso env) \<noteq> []" and "all_nonblank (notified_matches s0)"
    and "persist_outcome env \<noteq> WriteFails"
    and "m \<in> set (findMatches feed (discoverInstalledSkills w env (cfg_installRoot cfg)))"
  shows "recorded (notified_matches
           (loadState (run_file (scan_feed w env cfg event disk ws sh s0 feed)))) (matchKey m)"
proof -
  let ?ms = "findMatches feed (discoverInstalledSkills w env (cfg_installRoot cfg))"
  let ?s = "record_feed (nowIso env) feed s0"
  let ?t = "fst (mark_unseen (nowIso env) ?ms (notified_matches ?s) [])"
  have ne: "?ms \<noteq> []" using assms(4) by auto
  have r: "recorded ?t (matchKey m)"
    using mark_unseen_records [OF assms(1) _ assms(4)] assms(2) by simp
  have "run_file (scan_feed w env cfg event disk ws sh s0 feed)
      = Some (state_to_json (normalizeState (state_to_json (?s\<lparr>notified_matches := ?t\<rparr>))))"
    using ne persistState_file_ok [OF assms(3)]
    by (simp add: scan_feed_def Let_def finish_with_persist_fields split: prod.splits)
  then show ?thesis
    using recorded_after_persist [of "?s\<lparr>notified_matches := ?t\<rparr>" "matchKey m"] r by simp
qed

lemma scan_feed_all_seen:
  assumes "\<forall>m \<in> set (findMatches feed (discoverInstalledSkills w env (cfg_installRoot cfg))).
             notified (notified_matches s0) (matchKey m)"
  shows "run_unseen (scan_feed w env cfg event disk ws sh s0 feed) = []
       \<and> run_messages (scan_feed w env cfg event disk ws sh s0 feed) = ev_messages event"
  using mark_unseen_all_seen [of "findMatches feed (discoverInstalledSkills w env (cfg_installRoot cfg))"
      "notified_matches s0" "nowIso env" "[]"] assms
  by (auto simp: scan_feed_def Let_def finish_with_persist_fields split: prod.splits option.splits)


lemma feed_advisory_ids_nonblank: "x \<in> set (feed_advisory_ids feed) \<Longrightarrow> trim x \<noteq> []"
  by (auto simp: feed_advisory_ids_def split: option.splits if_splits)

lemma handler_known_union:
  assumes "scan_due env cfg event disk" and "loadFeed w cfg = Inr payload"
    and "persist_outcome env \<noteq> WriteFails"
  shows "stored_advisories (run_file (handler w env cfg event disk sh))
       = stored_advisories disk \<union> set (feed_advisory_ids (feed_of_json payload))"
proof -
  let ?ws = "if cfg_allowUnsigned cfg \<and> \<not> sh then [unsigned_warning] else []"
  let ?sh = "sh \<or> cfg_allowUnsigned cfg"
  obtain s where f: "run_file (scan_feed w env cfg event disk ?ws ?sh (loadState disk) (feed_of_json payload))
         = fst (persistState (persist_outcome env) (cfg_stateFile cfg) s disk)"
      and k: "known_advisories s
         = uniqueStrings (known_advisories (loadState disk) @ feed_advisory_ids (feed_of_json payload))"
    using scan_feed_persisted [of w env cfg event disk ?ws ?sh "loadState disk" "feed_of_json payload"]
    by blast
  have "{x \<in> set (known_advisories s). trim x \<noteq> []}
      = stored_advisories disk \<union> set (feed_advisory_ids (feed_of_json payload))"
    using k known_loadState_nonblank [of _ disk] feed_advisory_ids_nonblank
    by (auto simp: stored_advisories_def)
  then have "stored_advisories (Some (state_to_json (normalizeState (state_to_json s))))
      = stored_advisories disk \<union> set (feed_advisory_ids (feed_of_json payload))"
    by (simp only: stored_after_persist)
  then show ?thesis
    using handler_loaded [OF assms(1) assms(2), of sh] f persistState_file_ok [OF assms(3)]
    by simp
qed



text \<open>
  C7. Let one scan pass the event filter and the rate limit, load a feed and write its
  state (its timestamp not blank, as an ISO timestamp is). Then every match of that feed
  against the installed skills has its dedup key in \<^verbatim>\<open>notified_matches\<close> of the state the
  next invocation loads; and a second scan that loads the same feed and discovers the same
  skills finds no unseen match and appends no alert to the messages of its event.
\<close>

theorem second_scan_reports_nothing:
  assumes "scan_due env1 cfg event1 disk"
    and "loadFeed w1 cfg = Inr payload"
    and "persist_outcome env1 \<noteq> WriteFails"
    and "trim (nowIso env1) \<noteq> []"
    and "scan_due env2 cfg event2 (run_file (handler w1 env1 cfg event1 disk sh1))"
    and "loadFeed w2 cfg = Inr payload"
    and "discoverInstalledSkills w2 env2 (cfg_installRoot cfg)
         = discoverInstalledSkills w1 env1 (cfg_installRoot cfg)"
  shows "(\<forall>m \<in> set (findMatches (feed_of_json payload)
                      (discoverInstalledSkills w1 env1 (cfg_installRoot cfg))).
            notified (notified_matches (loadState (run_file (handler w1 env1 cfg event1 disk sh1))))
              (matchKey m))
       \<and> run_unseen (handler w2 env2 cfg event2 (run_file (handler w1 env1 cfg event1 disk sh1)) sh2)
           = []
       \<and> run_messages (handler w2 env2 cfg event2 (run_file (handler w1 env1 cfg event1 disk sh1)) sh2)
           = ev_messages event2"
proof -
  let ?feed = "feed_of_json payload"
  let ?ms = "findMatches ?feed (discoverInstalledSkills w1 env1 (cfg_installRoot cfg))"
  let ?disk1 = "run_file (handler w1 env1 cfg event1 disk sh1)"
  have seen: "\<forall>m \<in> set ?ms. notified (notified_matches (loadState ?disk1)) (matchKey m)"
  proof
    fix m assume m: "m \<in> set ?ms"
    have "recorded (notified_matches (loadState ?disk1)) (matchKey m)"
      using scan_feed_recorded [OF assms(4) all_nonblank_loadState [of disk] assms(3) m]
        handler_loaded [OF assms(1) assms(2), of sh1]
      by simp
    then show "notified (notified_matches (loadState ?disk1)) (matchKey m)"
      by (rule recorded_notified)
  qed
  have "\<forall>m \<in> set (findMatches ?feed (discoverInstalledSkills w2 env2 (cfg_installRoot cfg))).
          notified (notified_matches (loadState ?disk1)) (matchKey m)"
    using seen assms(7) by simp
  then have "run_unseen (handler w2 env2 cfg event2 ?disk1 sh2) = []
       \<and> run_messages (handler w2 env2 cfg event2 ?disk1 sh2) = ev_messages event2"
    using scan_feed_all_seen [of ?feed w2 env2 cfg "loadState ?disk1" event2 ?disk1]
      handler_loaded [OF assms(5) assms(6), of sh2]
    by simp
  then show ?thesis using seen by blast
qed

theorem second_scan_reports_nothing_witness:
  "scan_due first_env hook_cfg bootstrap_event None
   \<and> loadFeed hook_world hook_cfg = Inr example_payload
   \<and> persist_outcome first_env \<noteq> WriteFails
   \<and> trim (nowIso first_env) \<noteq> []
   \<and> scan_due second_env hook_cfg new_event
        (run_file (handler hook_world first_env hook_cfg bootstrap_event None False))
   \<and> length (run_unseen (handler hook_world first_env hook_cfg bootstrap_event None False)) = 1
   \<and> run_unseen (handler hook_world second_env hook_cfg new_event
        (run_file (handler hook_world first_env hook_cfg bootstrap_event None False)) False) = []
   \<and> run_messages (handler hook_world second_env hook_cfg new_event
        (run_file (handler hook_world first_env hook_cfg bootstrap_event None False)) False)
       = Some []"
proof -
  have a: "scan_due first_env hook_cfg bootstrap_event None" by code_simp
  have b: "loadFeed hook_world hook_cfg = Inr example_payload" by code_simp
  have c: "persist_outcome first_env \<noteq> WriteFails" by code_simp
  have d: "trim (nowIso first_env) \<noteq> []" by code_simp
  have e: "scan_due second_env hook_cfg new_event
        (run_file (handler hook_world first_env hook_cfg bootstrap_event None False))"
    by code_simp
  have f: "discoverInstalledSkills hook_world second_env (cfg_installRoot hook_cfg)
         = discoverInstalledSkills hook_world first_env (cfg_installRoot hook_cfg)"
    by code_simp
  have g: "length (run_unseen (handler hook_world first_env hook_cfg bootstrap_event None False)) = 1"
    by code_simp
  have h: "ev_messages new_event = Some []" by code_simp
  show ?thesis
    using a b c d e g h second_scan_reports_nothing [where ?sh2.0 = False, OF a b c d e b f]
    by simp
qed

text \<open>
  C9. The set of advisory ids that the state file holds, as \<^verbatim>\<open>loadState\<close> reads it, only
  grows: after one invocation of the handler, and so after any sequence of invocations,
  it contains the set from before. It is empty for the default state; an invocation that
  loads a feed and writes its state leaves the union of the ids from before and the
  non-blank ids of the feed; and the normalization on persist keeps every non-blank id.
\<close>

theorem known_advisories_only_grow:
  "stored_advisories disk \<subseteq> stored_advisories (run_file (handler w env cfg event disk sh))
   \<and> stored_advisories disk \<subseteq> stored_advisories (run_hooks cfg runs disk sh)
   \<and> stored_advisories None = {}
   \<and> set (known_advisories (normalizeState (state_to_json s)))
       = {x \<in> set (known_advisories s). trim x \<noteq> []}
   \<and> (scan_due env cfg event disk \<and> loadFeed w cfg = Inr payload
        \<and> persist_outcome env \<noteq> WriteFails \<longrightarrow>
        stored_advisories (run_file (handler w env cfg event disk sh))
          = stored_advisories disk \<union> set (feed_advisory_ids (feed_of_json payload)))"
proof -
  have a: "stored_advisories None = {}"
    by (simp add: stored_advisories_def loadState_def DEFAULT_STATE_def)
  have b: "set (known_advisories (normalizeState (state_to_json s)))
       = {x \<in> set (known_advisories s). trim x \<noteq> []}"
    by (simp add: known_normalize)
  show ?thesis
    using a b handler_known_grows [of disk w env cfg event sh]
      run_hooks_known_grows [of disk cfg runs sh]
      handler_known_union [of env cfg event disk w payload sh]
    by blast
qed

theorem known_advisories_only_grow_witness:
  "scan_due first_env hook_cfg bootstrap_event None
   \<and> loadFeed hook_world hook_cfg = Inr example_payload
   \<and> persist_outcome first_env \<noteq> WriteFails
   \<and> stored_advisories None = {}
   \<and> stored_advisories (run_file (handler hook_world first_env hook_cfg bootstrap_event None False))
       = {''TEST-001''}
   \<and> {''TEST-001''}
       \<subseteq> stored_advisories
           (run_hooks hook_cfg [(hook_world, second_env, new_event)]
              (run_file (handler hook_world first_env hook_cfg bootstrap_event None False)) False)"
proof -
  let ?disk1 = "run_file (handler hook_world first_env hook_cfg bootstrap_event None False)"
  have a: "scan_due first_env hook_cfg bootstrap_event None" by code_simp
  have b: "loadFeed hook_world hook_cfg = Inr example_payload" by code_simp
  have c: "persist_outcome first_env \<noteq> WriteFails" by code_simp
  have d: "feed_advisory_ids (feed_of_json example_payload) = [''TEST-001'']" by code_simp
  note t1 = known_advisories_only_grow [where disk = None and w = hook_world and env = first_env
      and cfg = hook_cfg and event = bootstrap_event and sh = False and payload = example_payload]
  note t2 = known_advisories_only_grow [where disk = ?disk1 and cfg = hook_cfg
      and runs = "[(hook_world, second_env, new_event)]" and sh = False]
  have r0: "stored_advisories None = {}" using t1 by blast
  have r1: "stored_advisories ?disk1 = {''TEST-001''}"
    using a b c d r0 t1 by simp
  have r2: "stored_advisories ?disk1
      \<subseteq> stored_advisories (run_hooks hook_cfg [(hook_world, second_env, new_event)] ?disk1 False)"
    using t2 by blast
  show ?thesis
    using a b c r0 r1 r2 by simp
qed

section \<open>Properties of the Guard Gate\<close>







end
